theory Spec2Isabelle
  imports Complex_Main
begin

section \<open>Triad enumeration (matching/utils.py)\<close>

text \<open>
  Python integers are unbounded, so indices and counts are values of type \<open>int\<close>.
  \<open>range(a, b)\<close> is the list \<open>a, a + 1, \<dots>, b - 1\<close>, empty when \<open>b \<le> a\<close>.
\<close>

definition py_range :: "int \<Rightarrow> int \<Rightarrow> int list" where
  "py_range a b = [a..b - 1]"

text \<open>
  \<open>range(start, stop, step)\<close> for a positive step: \<open>start, start + step, \<dots>\<close> as long as
  the value is below \<open>stop\<close>. The only stepped range of the source has step 3; a step that
  is not positive is outside what this function models and gives the empty list.
\<close>

function py_range_step :: "int \<Rightarrow> int \<Rightarrow> int \<Rightarrow> int list" where
  "py_range_step start stop step =
     (if 0 < step \<and> start < stop then start # py_range_step (start + step) stop step else [])"
  by pat_completeness auto
termination
  by (relation "measure (\<lambda>(start, stop, step). nat (stop - start))") auto

declare py_range_step.simps [simp del]

type_synonym triad = "int \<times> int \<times> int"

text \<open>
  \<^verbatim>\<open>
  def enhanced_pattern_shifting(n):
      for dj in range(1, n-2):
          for dk in range(1, n-dj-1):
              for ii in range(0, 3):
                  for i in range(ii, n-dj-dk, 3):
                      j = i + dj
                      k = j + dk
                      yield i, j, k
  \<close>
  The generator is finite; it is modelled by the list of the triples it yields, in order.
\<close>

definition enhanced_pattern_shifting :: "int \<Rightarrow> triad list" where
  "enhanced_pattern_shifting n =
     concat (map (\<lambda>dj.
       concat (map (\<lambda>dk.
         concat (map (\<lambda>ii.
           map (\<lambda>i. (i, i + dj, i + dj + dk)) (py_range_step ii (n - dj - dk) 3))
           (py_range 0 3)))
         (py_range 1 (n - dj - 1))))
       (py_range 1 (n - 2)))"

section \<open>Errors and numeric values\<close>

text \<open>
  Every way a modelled function can fail is a value. \<open>LinAlgError\<close> is what
  \<open>numpy.linalg.inv\<close> raises on a singular matrix, \<open>NameError\<close> what Python raises when a
  name is bound in no enclosing scope, \<open>ValueError\<close> what \<open>Camera.__init__\<close> raises,
  \<open>IndexError\<close> an index outside an array, \<open>ShapeError\<close> arrays whose batch sizes do not
  agree, \<open>TypeError\<close> an object that cannot be indexed. \<open>ScaleDetUndefined\<close> is
  \<open>scale_det\<close> on a matrix of determinant zero.
  \<open>NonFinite\<close> is not an exception: it marks a floating-point result with an infinite or
  NaN entry (a division by zero), which has no value among the reals; the model does not
  follow a computation beyond it.

  Floating-point numbers are modelled by the reals, so rounding is outside the model.
\<close>

datatype error =
    LinAlgError
  | NameError string
  | ValueError
  | IndexError
  | ShapeError
  | TypeError
  | ScaleDetUndefined
  | NonFinite

definition err_bind :: "error + 'a \<Rightarrow> ('a \<Rightarrow> error + 'b) \<Rightarrow> error + 'b" where
  "err_bind m f = (case m of Inl e \<Rightarrow> Inl e | Inr v \<Rightarrow> f v)"

text \<open>Applying a fallible function to every element of a batch: the first failure aborts.\<close>

fun map_err :: "('a \<Rightarrow> error + 'b) \<Rightarrow> 'a list \<Rightarrow> error + 'b list" where
  "map_err f [] = Inr []"
| "map_err f (x # xs) =
     (case f x of
        Inl e \<Rightarrow> Inl e
      | Inr y \<Rightarrow> (case map_err f xs of Inl e \<Rightarrow> Inl e | Inr ys \<Rightarrow> Inr (y # ys)))"

text \<open>
  An entry of a feature array: \<open>Some v\<close> is the finite value \<open>v\<close>, \<open>None\<close> is an infinite
  or NaN entry. numpy's elementwise division raises nothing on a zero divisor.
\<close>

type_synonym npfloat = "real option"

definition np_div :: "real \<Rightarrow> real \<Rightarrow> npfloat" where
  "np_div x y = (if y = 0 then None else Some (x / y))"

section \<open>3x3 matrices\<close>

text \<open>A 3x3 array, row by row.\<close>

datatype mat3 = Mat3 real real real  real real real  real real real

fun mat_add :: "mat3 \<Rightarrow> mat3 \<Rightarrow> mat3" where
  "mat_add (Mat3 a11 a12 a13 a21 a22 a23 a31 a32 a33) (Mat3 b11 b12 b13 b21 b22 b23 b31 b32 b33) =
     Mat3 (a11 + b11) (a12 + b12) (a13 + b13)
          (a21 + b21) (a22 + b22) (a23 + b23)
          (a31 + b31) (a32 + b32) (a33 + b33)"

fun mat_sub :: "mat3 \<Rightarrow> mat3 \<Rightarrow> mat3" where
  "mat_sub (Mat3 a11 a12 a13 a21 a22 a23 a31 a32 a33) (Mat3 b11 b12 b13 b21 b22 b23 b31 b32 b33) =
     Mat3 (a11 - b11) (a12 - b12) (a13 - b13)
          (a21 - b21) (a22 - b22) (a23 - b23)
          (a31 - b31) (a32 - b32) (a33 - b33)"

fun mat_scale :: "real \<Rightarrow> mat3 \<Rightarrow> mat3" where
  "mat_scale s (Mat3 a11 a12 a13 a21 a22 a23 a31 a32 a33) =
     Mat3 (s * a11) (s * a12) (s * a13)
          (s * a21) (s * a22) (s * a23)
          (s * a31) (s * a32) (s * a33)"

text \<open>The matrix product \<open>A @ B\<close>.\<close>

fun mat_mul :: "mat3 \<Rightarrow> mat3 \<Rightarrow> mat3" where
  "mat_mul (Mat3 a11 a12 a13 a21 a22 a23 a31 a32 a33) (Mat3 b11 b12 b13 b21 b22 b23 b31 b32 b33) =
     Mat3 (a11 * b11 + a12 * b21 + a13 * b31) (a11 * b12 + a12 * b22 + a13 * b32)
            (a11 * b13 + a12 * b23 + a13 * b33)
          (a21 * b11 + a22 * b21 + a23 * b31) (a21 * b12 + a22 * b22 + a23 * b32)
            (a21 * b13 + a22 * b23 + a23 * b33)
          (a31 * b11 + a32 * b21 + a33 * b31) (a31 * b12 + a32 * b22 + a33 * b32)
            (a31 * b13 + a32 * b23 + a33 * b33)"

fun mat_transpose :: "mat3 \<Rightarrow> mat3" where
  "mat_transpose (Mat3 a11 a12 a13 a21 a22 a23 a31 a32 a33) =
     Mat3 a11 a21 a31  a12 a22 a32  a13 a23 a33"

fun trace :: "mat3 \<Rightarrow> real" where
  "trace (Mat3 a11 a12 a13 a21 a22 a23 a31 a32 a33) = a11 + a22 + a33"

fun det :: "mat3 \<Rightarrow> real" where
  "det (Mat3 a11 a12 a13 a21 a22 a23 a31 a32 a33) =
     a11 * (a22 * a33 - a23 * a32) - a12 * (a21 * a33 - a23 * a31)
       + a13 * (a21 * a32 - a22 * a31)"

text \<open>The classical adjugate: the transpose of the matrix of cofactors.\<close>

fun adjugate :: "mat3 \<Rightarrow> mat3" where
  "adjugate (Mat3 a11 a12 a13 a21 a22 a23 a31 a32 a33) =
     Mat3 (a22 * a33 - a23 * a32) (a13 * a32 - a12 * a33) (a12 * a23 - a13 * a22)
          (a23 * a31 - a21 * a33) (a11 * a33 - a13 * a31) (a13 * a21 - a11 * a23)
          (a21 * a32 - a22 * a31) (a12 * a31 - a11 * a32) (a11 * a22 - a12 * a21)"

text \<open>The inverse of an invertible matrix, as a total function of the reals.\<close>

definition mat_inverse :: "mat3 \<Rightarrow> mat3" where
  "mat_inverse A = mat_scale (1 / det A) (adjugate A)"

text \<open>
  \<open>numpy.linalg.inv\<close> on one matrix raises \<open>LinAlgError\<close> when the matrix is singular,
  and on a batch when any matrix of the batch is.
\<close>

definition LA_inv :: "mat3 \<Rightarrow> error + mat3" where
  "LA_inv A = (if det A = 0 then Inl LinAlgError else Inr (mat_inverse A))"

definition LA_inv_batch :: "mat3 list \<Rightarrow> error + mat3 list" where
  "LA_inv_batch As = map_err LA_inv As"

text \<open>
  \<open>np.isfinite(LA.cond(M))\<close>: the 2-norm condition number of \<open>M\<close>, the ratio of its
  largest to its smallest singular value, is finite exactly when \<open>M\<close> is invertible. For
  the zero matrix numpy returns \<open>inf\<close> in floating point too; for another singular matrix
  the computed smallest singular value may be a rounding residue and the computed
  condition number large but finite, which is outside a model over the reals.
\<close>

definition cond_is_finite :: "mat3 \<Rightarrow> bool" where
  "cond_is_finite M = (det M \<noteq> 0)"

text \<open>
  Modelled from the spec: \<open>matrix_adjugate\<close> of \<open>craterdetection.common.conics\<close>, which is
  not among the sources. The spec: "classical adjugate, defined for any square matrix".
\<close>

definition matrix_adjugate :: "mat3 \<Rightarrow> mat3" where
  "matrix_adjugate A = adjugate A"

text \<open>
  Modelled from the spec: \<open>scale_det\<close> of \<open>craterdetection.common.conics\<close>, which is not
  among the sources. The spec: "rescale A so det(A) = 1; undefined/fails if det(A) = 0".
  Scaling a 3x3 matrix by \<open>c\<close> multiplies its determinant by \<open>c ^ 3\<close>, so the factor is the
  cube root of \<open>1 / det A\<close>.
\<close>

definition scale_det :: "mat3 \<Rightarrow> error + mat3" where
  "scale_det A =
     (if det A = 0 then Inl ScaleDetUndefined else Inr (mat_scale (root 3 (1 / det A)) A))"

section \<open>Permutation invariants (matching/projective\_invariants.py)\<close>

text \<open>
  The functions of the namespace \<open>PermutationInvariant\<close> on one triple of values; numpy
  applies them elementwise to arrays.
\<close>

definition F1 :: "real \<Rightarrow> real \<Rightarrow> real \<Rightarrow> real" where
  "F1 x y z = x + y + z"

definition F2 :: "real \<Rightarrow> real \<Rightarrow> real \<Rightarrow> npfloat" where
  "F2 x y z =
     np_div (2 * (x ^ 3 + y ^ 3 + z ^ 3) + 12 * x * y * z
               - 3 * (x ^ 2 * y + y ^ 2 * x + y ^ 2 * z + z ^ 2 * y + z ^ 2 * x + x ^ 2 * z))
            (x ^ 2 + y ^ 2 + z ^ 2 - (x * y + y * z + z * x))"

definition F3 :: "real \<Rightarrow> real \<Rightarrow> real \<Rightarrow> npfloat" where
  "F3 x y z =
     np_div (- 3 * sqrt 3 * (x - y) * (y - z) * (z - x))
            (x ^ 2 + y ^ 2 + z ^ 2 - (x * y + y * z + z * x))"

definition G1 :: "real \<Rightarrow> real \<Rightarrow> real \<Rightarrow> real \<Rightarrow> real \<Rightarrow> real \<Rightarrow> real" where
  "G1 x1 y1 z1 x2 y2 z2 =
     1.5 * (x1 * x2 + y1 * y2 + z1 * z2) - 0.5 * (x1 + y1 + z1) * (x2 + y2 + z2)"

definition G2 :: "real \<Rightarrow> real \<Rightarrow> real \<Rightarrow> real \<Rightarrow> real \<Rightarrow> real \<Rightarrow> real" where
  "G2 x1 y1 z1 x2 y2 z2 =
     (sqrt 3 / 2) * ((x1 * z2 + y1 * x2 + z1 * y2) - (x1 * y2 + y1 * z2 + z1 * x2))"

text \<open>
  \<open>G_tilde\<close> divides both entries of \<open>G\<close> by
  \<open>np.sqrt(np.sqrt(((x1-y1)**2 + (y1-z1)**2 + (z1-x1)**2) * ((x2-y2)**2 + \<dots>)))\<close>.
  The argument of the square roots is a product of sums of squares, never negative.
\<close>

definition G_tilde_den :: "real \<Rightarrow> real \<Rightarrow> real \<Rightarrow> real \<Rightarrow> real \<Rightarrow> real \<Rightarrow> real" where
  "G_tilde_den x1 y1 z1 x2 y2 z2 =
     sqrt (sqrt (((x1 - y1) ^ 2 + (y1 - z1) ^ 2 + (z1 - x1) ^ 2)
                  * ((x2 - y2) ^ 2 + (y2 - z2) ^ 2 + (z2 - x2) ^ 2)))"

definition G_tilde1 :: "real \<Rightarrow> real \<Rightarrow> real \<Rightarrow> real \<Rightarrow> real \<Rightarrow> real \<Rightarrow> npfloat" where
  "G_tilde1 x1 y1 z1 x2 y2 z2 =
     np_div (G1 x1 y1 z1 x2 y2 z2) (G_tilde_den x1 y1 z1 x2 y2 z2)"

definition G_tilde2 :: "real \<Rightarrow> real \<Rightarrow> real \<Rightarrow> real \<Rightarrow> real \<Rightarrow> real \<Rightarrow> npfloat" where
  "G_tilde2 x1 y1 z1 x2 y2 z2 =
     np_div (G2 x1 y1 z1 x2 y2 z2) (G_tilde_den x1 y1 z1 x2 y2 z2)"

text \<open>Elementwise application to three and to six arrays of one length.\<close>

definition map3 :: "('a \<Rightarrow> 'b \<Rightarrow> 'c \<Rightarrow> 'd) \<Rightarrow> 'a list \<Rightarrow> 'b list \<Rightarrow> 'c list \<Rightarrow> 'd list" where
  "map3 f xs ys zs = map (\<lambda>(x, y, z). f x y z) (zip xs (zip ys zs))"

definition map6 ::
  "('a \<Rightarrow> 'a \<Rightarrow> 'a \<Rightarrow> 'a \<Rightarrow> 'a \<Rightarrow> 'a \<Rightarrow> 'b) \<Rightarrow>
     'a list \<Rightarrow> 'a list \<Rightarrow> 'a list \<Rightarrow> 'a list \<Rightarrow> 'a list \<Rightarrow> 'a list \<Rightarrow> 'b list" where
  "map6 f x1 y1 z1 x2 y2 z2 =
     map (\<lambda>((a, b, c), (d, e, g)). f a b c d e g) (zip (zip x1 (zip y1 z1)) (zip x2 (zip y2 z2)))"

text \<open>\<open>F\<close> is \<open>np.array((F1, F2, F3))\<close>, three rows; \<open>G_tilde\<close> has two rows.\<close>

definition F :: "real list \<Rightarrow> real list \<Rightarrow> real list \<Rightarrow> npfloat list list" where
  "F x y z = [map3 (\<lambda>a b c. Some (F1 a b c)) x y z, map3 F2 x y z, map3 F3 x y z]"

definition G_tilde ::
  "real list \<Rightarrow> real list \<Rightarrow> real list \<Rightarrow> real list \<Rightarrow> real list \<Rightarrow> real list \<Rightarrow>
     npfloat list list" where
  "G_tilde x1 y1 z1 x2 y2 z2 = [map6 G_tilde1 x1 y1 z1 x2 y2 z2, map6 G_tilde2 x1 y1 z1 x2 y2 z2]"

section \<open>Array plumbing\<close>

text \<open>
  A two-dimensional array is the list of its rows. A list of rows cannot tell how many
  columns an array without rows has, so the transpose takes the number of columns of its
  argument, which is known wherever the source writes \<open>.T\<close>.
\<close>

definition np_T :: "nat \<Rightarrow> 'a list list \<Rightarrow> 'a list list" where
  "np_T ncols rows = map (\<lambda>j. map (\<lambda>row. row ! j) rows) [0..<ncols]"

text \<open>A one-dimensional array as a column, the way \<open>np.column_stack\<close> reads it.\<close>

definition as_column :: "'a list \<Rightarrow> 'a list list" where
  "as_column xs = map (\<lambda>x. [x]) xs"

text \<open>\<open>np.column_stack\<close> of blocks with the same number of rows: the rows side by side.\<close>

fun column_stack :: "'a list list list \<Rightarrow> 'a list list" where
  "column_stack [] = []"
| "column_stack [b] = b"
| "column_stack (b # bs) = map2 (@) b (column_stack bs)"

text \<open>Boolean-mask indexing \<open>arr[mask]\<close>: the entries where the mask is true, in order.\<close>

definition mask_select :: "'a list \<Rightarrow> bool list \<Rightarrow> 'a list" where
  "mask_select xs msk = map fst (filter snd (zip xs msk))"

section \<open>Coplanar invariants (matching/projective\_invariants.py)\<close>

record coplanar_invariants =
  crater_triads :: "triad list"
  I_ij :: "real list"
  I_ji :: "real list"
  I_ik :: "real list"
  I_ki :: "real list"
  I_jk :: "real list"
  I_kj :: "real list"
  I_ijk :: "real list"

text \<open>\<open>np.trace(LA.inv(A) @ B, axis1=-2, axis2=-1)\<close> on two batches.\<close>

definition trace_inv_prod :: "mat3 list \<Rightarrow> mat3 list \<Rightarrow> error + real list" where
  "trace_inv_prod A B =
     err_bind (LA_inv_batch A) (\<lambda>A_inv. Inr (map2 (\<lambda>p q. trace (mat_mul p q)) A_inv B))"

text \<open>
  \<open>overlapped_craters\<close> of \<open>__init__\<close>: true where one of the three differences has an
  infinite condition number.
\<close>

definition overlapped_craters :: "mat3 list \<Rightarrow> mat3 list \<Rightarrow> mat3 list \<Rightarrow> bool list" where
  "overlapped_craters A_i A_j A_k =
     map3 (\<lambda>a b c. \<not> (cond_is_finite (mat_sub a b) \<and> cond_is_finite (mat_sub a c)
                        \<and> cond_is_finite (mat_sub b c))) A_i A_j A_k"

text \<open>
  \<open>CoplanarInvariants.__init__\<close>, lines 118 to 127: the optional normalisation and the
  seven batches of invariants, computed from the batches that passed the filter.
  \<^verbatim>\<open>
  if normalize_det:
      A_i, A_j, A_k = map(scale_det, (A_i, A_j, A_k))
  self.I_ij, self.I_ji = np.trace(LA.inv(A_i) @ A_j, ...), np.trace(LA.inv(A_j) @ A_i, ...)
  self.I_ik, self.I_ki = np.trace(LA.inv(A_i) @ A_k, ...), np.trace(LA.inv(A_k) @ A_i, ...)
  self.I_jk, self.I_kj = np.trace(LA.inv(A_j) @ A_k, ...), np.trace(LA.inv(A_k) @ A_j, ...)
  self.I_ijk = np.trace((matrix_adjugate(A_j + A_k) - matrix_adjugate(A_j - A_k)) @ A_i, ...)
  \<close>
\<close>

definition compute_invariants ::
  "triad list \<Rightarrow> mat3 list \<Rightarrow> mat3 list \<Rightarrow> mat3 list \<Rightarrow> bool \<Rightarrow> error + coplanar_invariants" where
  "compute_invariants triads A_i1 A_j1 A_k1 normalize_det =
     err_bind (if normalize_det then map_err scale_det A_i1 else Inr A_i1) (\<lambda>A_i.
     err_bind (if normalize_det then map_err scale_det A_j1 else Inr A_j1) (\<lambda>A_j.
     err_bind (if normalize_det then map_err scale_det A_k1 else Inr A_k1) (\<lambda>A_k.
     err_bind (trace_inv_prod A_i A_j) (\<lambda>v_ij.
     err_bind (trace_inv_prod A_j A_i) (\<lambda>v_ji.
     err_bind (trace_inv_prod A_i A_k) (\<lambda>v_ik.
     err_bind (trace_inv_prod A_k A_i) (\<lambda>v_ki.
     err_bind (trace_inv_prod A_j A_k) (\<lambda>v_jk.
     err_bind (trace_inv_prod A_k A_j) (\<lambda>v_kj.
     Inr \<lparr> crater_triads = triads,
           I_ij = v_ij, I_ji = v_ji, I_ik = v_ik, I_ki = v_ki, I_jk = v_jk, I_kj = v_kj,
           I_ijk = map3 (\<lambda>a b c. trace (mat_mul
                           (mat_sub (matrix_adjugate (mat_add b c))
                                    (matrix_adjugate (mat_sub b c))) a))
                     A_i A_j A_k \<rparr>)))))))))"

text \<open>
  \<open>CoplanarInvariants.__init__\<close>, lines 109 to 116 and then the computation above.
  \<^verbatim>\<open>
  self.crater_triads = crater_triads
  overlapped_craters = ~np.logical_and.reduce((
      np.isfinite(LA.cond(A_i - A_j)),
      np.isfinite(LA.cond(A_i - A_k)),
      np.isfinite(LA.cond(A_j - A_k))))
  A_i, A_j, A_k = map(lambda craters_: craters_[~overlapped_craters], (A_i, A_j, A_k))
  self.crater_triads = self.crater_triads[~overlapped_craters]
  \<close>
  The three batches and the triad array are aligned, one entry per triad; batches of
  different sizes are outside the documented input (numpy rejects them, or repeats a
  batch of one matrix) and the model rejects them.
\<close>

definition CoplanarInvariants_init ::
  "triad list \<Rightarrow> mat3 list \<Rightarrow> mat3 list \<Rightarrow> mat3 list \<Rightarrow> bool \<Rightarrow> error + coplanar_invariants" where
  "CoplanarInvariants_init triads0 A_i0 A_j0 A_k0 normalize_det =
     (if \<not> (length triads0 = length A_i0 \<and> length A_i0 = length A_j0
             \<and> length A_j0 = length A_k0)
      then Inl ShapeError
      else
        let keep = map Not (overlapped_craters A_i0 A_j0 A_k0) in
        compute_invariants (mask_select triads0 keep)
          (mask_select A_i0 keep) (mask_select A_j0 keep) (mask_select A_k0 keep)
          normalize_det)"

text \<open>
  \<^verbatim>\<open>
  def get_pattern(self, permutation_invariant=False):
      if permutation_invariant:
          return np.column_stack((
              PermutationInvariant.F(self.I_ij, self.I_jk, self.I_ki).T,
              PermutationInvariant.F1(self.I_ji, self.I_kj, self.I_ik),
              PermutationInvariant.G_tilde(self.I_ij, self.I_jk, self.I_ki,
                                           self.I_ji, self.I_kj, self.I_ik).T,
              self.I_ijk
          )).T
      else:
          return np.column_stack((
              self.I_ij, self.I_ji, self.I_ik, self.I_ki, self.I_jk, self.I_kj, self.I_ijk,
          ))
  \<close>
  With \<open>permutation_invariant\<close> the four blocks are stacked as columns and the result is
  transposed; \<open>F(\<dots>).T\<close> and \<open>G_tilde(\<dots>).T\<close> transpose arrays with one column per
  triad. Without it the seven arrays are stacked as columns.
\<close>

definition get_pattern :: "coplanar_invariants \<Rightarrow> bool \<Rightarrow> npfloat list list" where
  "get_pattern self permutation_invariant =
     (let n = length (I_ij self) in
      if permutation_invariant then
        np_T 7 (column_stack
          [ np_T n (F (I_ij self) (I_jk self) (I_ki self)),
            as_column (map3 (\<lambda>a b c. Some (F1 a b c)) (I_ji self) (I_kj self) (I_ik self)),
            np_T n (G_tilde (I_ij self) (I_jk self) (I_ki self)
                            (I_ji self) (I_kj self) (I_ik self)),
            as_column (map Some (I_ijk self)) ])
      else
        column_stack
          [ as_column (map Some (I_ij self)),
            as_column (map Some (I_ji self)),
            as_column (map Some (I_ik self)),
            as_column (map Some (I_ki self)),
            as_column (map Some (I_jk self)),
            as_column (map Some (I_kj self)),
            as_column (map Some (I_ijk self)) ])"

section \<open>The specification's per-triad reading\<close>

text \<open>
  The definitions of this section follow the words of the specification, not the code:
  they are what the code's batch computation is compared with.

  A triad survives when no pairwise difference of its three conics is singular.
\<close>

definition not_overlapped :: "mat3 \<Rightarrow> mat3 \<Rightarrow> mat3 \<Rightarrow> bool" where
  "not_overlapped a b c =
     (det (mat_sub a b) \<noteq> 0 \<and> det (mat_sub a c) \<noteq> 0 \<and> det (mat_sub b c) \<noteq> 0)"

text \<open>
  An entry of a batch: a triad with its three conics \<open>A_i\<close>, \<open>A_j\<close>, \<open>A_k\<close>.
\<close>

type_synonym entry = "triad \<times> mat3 \<times> mat3 \<times> mat3"

abbreviation conic_i :: "entry \<Rightarrow> mat3" where
  "conic_i s \<equiv> fst (snd s)"

abbreviation conic_j :: "entry \<Rightarrow> mat3" where
  "conic_j s \<equiv> fst (snd (snd s))"

abbreviation conic_k :: "entry \<Rightarrow> mat3" where
  "conic_k s \<equiv> snd (snd (snd s))"

text \<open>The surviving triads of a batch, each with its three conics, in input order.\<close>

definition surviving :: "triad list \<Rightarrow> mat3 list \<Rightarrow> mat3 list \<Rightarrow> mat3 list \<Rightarrow> entry list" where
  "surviving ts As Bs Cs =
     filter (\<lambda>s. not_overlapped (conic_i s) (conic_j s) (conic_k s))
       (zip ts (zip As (zip Bs Cs)))"

definition all_invertible :: "entry list \<Rightarrow> bool" where
  "all_invertible S =
     (\<forall>s \<in> set S. det (conic_i s) \<noteq> 0 \<and> det (conic_j s) \<noteq> 0 \<and> det (conic_k s) \<noteq> 0)"

text \<open>The conic an invariant is computed from: rescaled to determinant 1 on request.\<close>

definition normalized :: "bool \<Rightarrow> mat3 \<Rightarrow> mat3" where
  "normalized normalize_det A = (if normalize_det then mat_scale (root 3 (1 / det A)) A else A)"

text \<open>
  The invariant of a pair is the trace of the inverse of the first conic times the second;
  the invariant of the triple is the trace of \<open>(adj(A_j + A_k) - adj(A_j - A_k))\<close> times
  \<open>A_i\<close>.
\<close>

definition pair_invariant :: "mat3 \<Rightarrow> mat3 \<Rightarrow> real" where
  "pair_invariant A B = trace (mat_mul (mat_inverse A) B)"

definition triple_invariant :: "mat3 \<Rightarrow> mat3 \<Rightarrow> mat3 \<Rightarrow> real" where
  "triple_invariant A_i A_j A_k =
     trace (mat_mul (mat_sub (adjugate (mat_add A_j A_k)) (adjugate (mat_sub A_j A_k))) A_i)"

text \<open>
  The seven raw invariants of one triad, in the pairing order
  \<open>I_ij, I_ji, I_ik, I_ki, I_jk, I_kj, I_ijk\<close>.
\<close>

definition raw_invariants :: "mat3 \<Rightarrow> mat3 \<Rightarrow> mat3 \<Rightarrow> real list" where
  "raw_invariants A_i A_j A_k =
     [ pair_invariant A_i A_j, pair_invariant A_j A_i,
       pair_invariant A_i A_k, pair_invariant A_k A_i,
       pair_invariant A_j A_k, pair_invariant A_k A_j,
       triple_invariant A_i A_j A_k ]"

text \<open>
  The permutation-invariant features of one triad, as section 4.3 of the specification
  lists them: \<open>F\<close> of \<open>(I_ij, I_jk, I_ki)\<close>, \<open>F1\<close> of the reverse-order triple
  \<open>(I_ji, I_kj, I_ik)\<close>, the two values of \<open>G_tilde\<close> comparing the two triples, and
  \<open>I_ijk\<close>.
\<close>

definition permutation_features :: "mat3 \<Rightarrow> mat3 \<Rightarrow> mat3 \<Rightarrow> npfloat list" where
  "permutation_features A_i A_j A_k =
     (let x1 = pair_invariant A_i A_j; y1 = pair_invariant A_j A_k; z1 = pair_invariant A_k A_i;
          x2 = pair_invariant A_j A_i; y2 = pair_invariant A_k A_j; z2 = pair_invariant A_i A_k
      in [ Some (F1 x1 y1 z1), F2 x1 y1 z1, F3 x1 y1 z1,
           Some (F1 x2 y2 z2),
           G_tilde1 x1 y1 z1 x2 y2 z2, G_tilde2 x1 y1 z1 x2 y2 z2,
           Some (triple_invariant A_i A_j A_k) ])"

text \<open>
  The object \<open>__init__\<close> is expected to build from the surviving entries \<open>S\<close>: the
  triads, and each invariant for each entry from its (normalised) conics.
\<close>

definition invariants_of :: "bool \<Rightarrow> entry list \<Rightarrow> coplanar_invariants" where
  "invariants_of nd S =
     (let N = normalized nd in
      \<lparr> crater_triads = map fst S,
        I_ij = map (\<lambda>s. pair_invariant (N (conic_i s)) (N (conic_j s))) S,
        I_ji = map (\<lambda>s. pair_invariant (N (conic_j s)) (N (conic_i s))) S,
        I_ik = map (\<lambda>s. pair_invariant (N (conic_i s)) (N (conic_k s))) S,
        I_ki = map (\<lambda>s. pair_invariant (N (conic_k s)) (N (conic_i s))) S,
        I_jk = map (\<lambda>s. pair_invariant (N (conic_j s)) (N (conic_k s))) S,
        I_kj = map (\<lambda>s. pair_invariant (N (conic_k s)) (N (conic_j s))) S,
        I_ijk = map (\<lambda>s. triple_invariant (N (conic_i s)) (N (conic_j s)) (N (conic_k s))) S \<rparr>)"

text \<open>The cyclic rotation \<open>(A, B, C) \<mapsto> (B, C, A)\<close> of the conics of an entry.\<close>

definition rotate_entry :: "entry \<Rightarrow> entry" where
  "rotate_entry s = (fst s, conic_j s, conic_k s, conic_i s)"

section \<open>Orientation utilities (matching/utils.py)\<close>

text \<open>
  An array of shape \<open>(n, 3)\<close> is the list of its rows, each a triple. The source keeps the
  coordinates of the triads as arrays \<open>x_triads\<close>, \<open>y_triads\<close> of shape \<open>(3, n)\<close> and
  reads them through \<open>.T\<close> and \<open>[:, mask]\<close>; the model keeps the list of their columns,
  one triple \<open>(x\<^sub>0, x\<^sub>1, x\<^sub>2)\<close> per triad.

  \<^verbatim>\<open>
  def np_swap_columns(arr):
      arr[:, 0], arr[:, 1] = arr[:, 1], arr[:, 0].copy()
      return arr
  \<close>
  The right-hand side is evaluated first: a view of column 1 and a copy of column 0. Then
  column 0 receives column 1, and column 1 receives the saved copy.
\<close>

definition np_swap_columns :: "('a \<times> 'a \<times> 'a) list \<Rightarrow> ('a \<times> 'a \<times> 'a) list" where
  "np_swap_columns arr =
     (let saved = map fst arr;
          arr1 = map (\<lambda>(c0, c1, c2). (c1, c1, c2)) arr
      in map2 (\<lambda>(c0, c1, c2) s. (c0, s, c2)) arr1 saved)"

text \<open>
  \<open>cw_or_ccw\<close>: for every triad the determinant of the rows \<open>(x\<^sub>m, y\<^sub>m, 1)\<close> of its
  three points.
\<close>

definition cw_or_ccw :: "(real \<times> real \<times> real) list \<Rightarrow> (real \<times> real \<times> real) list \<Rightarrow> real list" where
  "cw_or_ccw x_triads y_triads =
     map2 (\<lambda>(x0, x1, x2) (y0, y1, y2). det (Mat3 x0 y0 1  x1 y1 1  x2 y2 1)) x_triads y_triads"

definition is_colinear :: "(real \<times> real \<times> real) list \<Rightarrow> (real \<times> real \<times> real) list \<Rightarrow> bool list" where
  "is_colinear x_triads y_triads = map (\<lambda>d. d = 0) (cw_or_ccw x_triads y_triads)"

definition is_clockwise :: "(real \<times> real \<times> real) list \<Rightarrow> (real \<times> real \<times> real) list \<Rightarrow> bool list" where
  "is_clockwise x_triads y_triads = map (\<lambda>d. d < 0) (cw_or_ccw x_triads y_triads)"

text \<open>\<open>np.logical_and.reduce\<close> of an empty array is \<open>True\<close>.\<close>

definition all_clockwise :: "(real \<times> real \<times> real) list \<Rightarrow> (real \<times> real \<times> real) list \<Rightarrow> bool" where
  "all_clockwise x_triads y_triads = foldr (\<and>) (is_clockwise x_triads y_triads) True"

text \<open>
  The masked assignment \<open>arr[mask] = values\<close>: the entries where the mask is true are
  replaced by the values, in order. Every use in the source takes the values from
  \<open>arr[mask]\<close> itself, so there are as many values as true entries; a missing value
  leaves the entry as it is.
\<close>

fun mask_assign :: "'a list \<Rightarrow> bool list \<Rightarrow> 'a list \<Rightarrow> 'a list" where
  "mask_assign (x # xs) (True # ms) (v # vs) = v # mask_assign xs ms vs"
| "mask_assign (x # xs) (m # ms) vs = x # mask_assign xs ms vs"
| "mask_assign xs ms vs = xs"

text \<open>
  Indexing \<open>arr[i]\<close> of a one-dimensional array: a negative index counts from the end,
  an index outside the array raises \<open>IndexError\<close>. \<open>arr[crater_triads]\<close> reads the three
  entries of every triad.
\<close>

definition np_take :: "'a list \<Rightarrow> int \<Rightarrow> error + 'a" where
  "np_take arr i =
     (let n = int (length arr) in
      if - n \<le> i \<and> i < n then Inr (arr ! nat (if i < 0 then i + n else i))
      else Inl IndexError)"

definition triad_take :: "'a list \<Rightarrow> triad \<Rightarrow> error + ('a \<times> 'a \<times> 'a)" where
  "triad_take arr t =
     (case t of (i, j, k) \<Rightarrow>
        err_bind (np_take arr i) (\<lambda>a.
        err_bind (np_take arr j) (\<lambda>b.
        err_bind (np_take arr k) (\<lambda>c. Inr (a, b, c)))))"

definition triad_index :: "'a list \<Rightarrow> triad list \<Rightarrow> error + ('a \<times> 'a \<times> 'a) list" where
  "triad_index arr triads = map_err (triad_take arr) triads"

section \<open>Clockwise ordering of the triads (from\_detection\_conics, lines 146 to 164)\<close>

text \<open>
  \<^verbatim>\<open>
  clockwise = is_clockwise(x_triads, y_triads)

  crater_triads_cw = crater_triads.copy()
  crater_triads_cw[~clockwise] = np_swap_columns(crater_triads[~clockwise])
  x_triads[:, ~clockwise] = np_swap_columns(x_triads.T[~clockwise]).T
  y_triads[:, ~clockwise] = np_swap_columns(y_triads.T[~clockwise]).T

  if not all_clockwise(x_triads, y_triads):
      line = is_colinear(x_triads, y_triads)
      x_triads = x_triads[:, ~line]
      y_triads = y_triads[:, ~line]
      crater_triads_cw = crater_triads_cw[~line]

      if not all_clockwise(x_triads, y_triads):
          print("Failed to order all triads in clockwise order. Removing ccw triads...")
          clockwise = is_clockwise(x_triads, y_triads)
          x_triads = x_triads[:, clockwise]
          y_triads = y_triads[:, clockwise]
          crater_triads_cw = crater_triads_cw[clockwise]
  \<close>
  Indexing with a boolean mask makes a new array, so \<open>np_swap_columns\<close> changes a copy
  and \<open>crater_triads\<close> (here \<open>triads\<close>) keeps its rows. The result is the value of the
  three local variables \<open>crater_triads_cw\<close>, \<open>x_triads\<close>, \<open>y_triads\<close> at the end; the
  printed message is not modelled.
\<close>

definition order_clockwise ::
  "triad list \<Rightarrow> (real \<times> real \<times> real) list \<Rightarrow> (real \<times> real \<times> real) list \<Rightarrow>
     triad list \<times> (real \<times> real \<times> real) list \<times> (real \<times> real \<times> real) list" where
  "order_clockwise triads x_triads0 y_triads0 =
     (let clockwise = is_clockwise x_triads0 y_triads0;
          not_cw = map Not clockwise;
          crater_triads_cw =
            mask_assign triads not_cw (np_swap_columns (mask_select triads not_cw));
          x_triads = mask_assign x_triads0 not_cw (np_swap_columns (mask_select x_triads0 not_cw));
          y_triads = mask_assign y_triads0 not_cw (np_swap_columns (mask_select y_triads0 not_cw))
      in
      if \<not> all_clockwise x_triads y_triads then
        let not_line = map Not (is_colinear x_triads y_triads);
            x_triads1 = mask_select x_triads not_line;
            y_triads1 = mask_select y_triads not_line;
            crater_triads_cw1 = mask_select crater_triads_cw not_line
        in
        if \<not> all_clockwise x_triads1 y_triads1 then
          let clockwise1 = is_clockwise x_triads1 y_triads1
          in (mask_select crater_triads_cw1 clockwise1,
              mask_select x_triads1 clockwise1, mask_select y_triads1 clockwise1)
        else (crater_triads_cw1, x_triads1, y_triads1)
      else (crater_triads_cw, x_triads, y_triads))"

section \<open>The alternate constructors (matching/projective\_invariants.py)\<close>

text \<open>
  A name that a function never assigns is looked up in the module's global scope (and
  then among the builtins, none of which is called \<open>x_pix\<close> or \<open>y_pix\<close>); a name bound
  nowhere raises \<open>NameError\<close>. The parameters of a caller are not in scope in the callee.
  \<open>module_globals\<close> lists what \<open>projective_invariants.py\<close> binds at module level: its
  imports and its two classes.
\<close>

datatype pyobj = PyModule | PyFunction | PyClass | PyArray "real list"

definition module_globals :: "string \<rightharpoonup> pyobj" where
  "module_globals = map_of
     [ (''np'', PyModule), (''LA'', PyModule),
       (''matrix_adjugate'', PyFunction), (''scale_det'', PyFunction),
       (''crater_representation'', PyFunction),
       (''np_swap_columns'', PyFunction), (''is_colinear'', PyFunction),
       (''is_clockwise'', PyFunction), (''all_clockwise'', PyFunction),
       (''enhanced_pattern_shifting'', PyFunction),
       (''PermutationInvariant'', PyClass), (''CoplanarInvariants'', PyClass) ]"

definition load_global :: "(string \<rightharpoonup> pyobj) \<Rightarrow> string \<Rightarrow> error + pyobj" where
  "load_global globs name = (case globs name of None \<Rightarrow> Inl (NameError name) | Some v \<Rightarrow> Inr v)"

text \<open>Subscripting \<open>obj[crater_triads]\<close>: only an array can be indexed by an index array.\<close>

definition subscript_triads :: "pyobj \<Rightarrow> triad list \<Rightarrow> error + (real \<times> real \<times> real) list" where
  "subscript_triads obj triads =
     (case obj of PyArray arr \<Rightarrow> triad_index arr triads | _ \<Rightarrow> Inl TypeError)"

text \<open>
  The rows that \<open>from_detection_conics\<close> builds when no triads are passed:
  \<^verbatim>\<open>
  n_det = len(A_craters)
  n_comb = int((n_det * (n_det - 1) * (n_det - 2)) / 6)
  crater_triads = np.zeros((n_comb, 3), np.int)
  for it, (i, j, k) in enumerate(enhanced_pattern_shifting(n_det)):
      crater_triads[it] = np.array([i, j, k])
  \<close>
  The product of three consecutive integers is a multiple of 6, so the quotient is exact
  (as long as the float division is, which it is for any realistic number of
  detections). \<open>np.int\<close> is taken to exist, as it did in the numpy releases the
  repository was written for. Writing row \<open>it\<close> of an array with fewer rows raises
  \<open>IndexError\<close>; rows never written stay \<open>(0, 0, 0)\<close>.
\<close>

definition default_triads :: "'a list \<Rightarrow> error + triad list" where
  "default_triads A_craters =
     (let n_det = int (length A_craters);
          n_comb = nat ((n_det * (n_det - 1) * (n_det - 2)) div 6);
          rows = enhanced_pattern_shifting n_det
      in if length rows \<le> n_comb
         then Inr (rows @ replicate (n_comb - length rows) (0, 0, 0))
         else Inl IndexError)"

text \<open>
  \<open>from_detection_conics\<close>. Line 145 reads the names \<open>x_pix\<close> and \<open>y_pix\<close>, which the
  function neither takes as parameters nor assigns, so they are looked up in \<open>globs\<close>, the
  global scope the function runs in. After the clockwise ordering the function ends
  without a \<open>return\<close> statement: it returns \<open>None\<close>.
\<close>

definition from_detection_conics ::
  "(string \<rightharpoonup> pyobj) \<Rightarrow> mat3 list \<Rightarrow> triad list option \<Rightarrow> error + coplanar_invariants option" where
  "from_detection_conics globs A_craters triads_arg =
     err_bind (case triads_arg of None \<Rightarrow> default_triads A_craters | Some ts \<Rightarrow> Inr ts)
       (\<lambda>triads.
     err_bind (load_global globs ''x_pix'') (\<lambda>x_pix.
     err_bind (subscript_triads x_pix triads) (\<lambda>x_triads.
     err_bind (load_global globs ''y_pix'') (\<lambda>y_pix.
     err_bind (subscript_triads y_pix triads) (\<lambda>y_triads.
       case order_clockwise triads x_triads y_triads of
         (crater_triads_cw, x_triads', y_triads') \<Rightarrow> Inr None)))))"

text \<open>
  \<open>from_detection\<close>. \<open>crater_representation\<close> of \<open>craterdetection.common.conics\<close> is not
  among the sources; it is the parameter \<open>crater_representation\<close>, a function from the
  five parameter arrays to a batch of conics that may fail. \<open>np.radians\<close> multiplies by
  \<open>pi / 180\<close>.
\<close>

definition from_detection ::
  "(real list \<Rightarrow> real list \<Rightarrow> real list \<Rightarrow> real list \<Rightarrow> real list \<Rightarrow> error + mat3 list) \<Rightarrow>
   (string \<rightharpoonup> pyobj) \<Rightarrow> real list \<Rightarrow> real list \<Rightarrow> real list \<Rightarrow> real list \<Rightarrow> real list \<Rightarrow>
   bool \<Rightarrow> triad list option \<Rightarrow> error + coplanar_invariants option" where
  "from_detection crater_representation globs x_pix y_pix a_pix b_pix psi_pix
       convert_to_radians triads_arg =
     (let psi = (if convert_to_radians then map (\<lambda>d. d * pi / 180) psi_pix else psi_pix)
      in err_bind (crater_representation a_pix b_pix psi x_pix y_pix) (\<lambda>A_craters.
           from_detection_conics globs A_craters triads_arg))"

text \<open>
  A generator is run by asking it for one item after the other; an exception raised while
  an item is computed ends it. \<open>drain f ts\<close> is the list of the items yielded for the
  inputs \<open>ts\<close>, with the exception that ended the generator, if any.
\<close>

fun drain :: "('t \<Rightarrow> error + 'a) \<Rightarrow> 't list \<Rightarrow> 'a list \<times> error option" where
  "drain f [] = ([], None)"
| "drain f (t # ts) =
     (case f t of
        Inl e \<Rightarrow> ([], Some e)
      | Inr v \<Rightarrow> (case drain f ts of (vs, r) \<Rightarrow> (v # vs, r)))"

text \<open>
  \<open>match_generator\<close>: for every triple of the enumerator, the triad and the object that
  \<open>from_detection\<close> returns for this one triad.
\<close>

definition match_generator ::
  "(real list \<Rightarrow> real list \<Rightarrow> real list \<Rightarrow> real list \<Rightarrow> real list \<Rightarrow> error + mat3 list) \<Rightarrow>
   (string \<rightharpoonup> pyobj) \<Rightarrow> real list \<Rightarrow> real list \<Rightarrow> real list \<Rightarrow> real list \<Rightarrow> real list \<Rightarrow>
   bool \<Rightarrow> (triad \<times> coplanar_invariants option) list \<times> error option" where
  "match_generator crater_representation globs x_pix y_pix a_pix b_pix psi_pix
       convert_to_radians =
     (let n_det = int (length x_pix)
      in drain (\<lambda>t. err_bind (from_detection crater_representation globs x_pix y_pix a_pix b_pix
                                 psi_pix convert_to_radians (Some [t]))
                         (\<lambda>inst. Inr (t, inst)))
           (enhanced_pattern_shifting n_det))"

text \<open>
  The two exchanges of a triple that invert the orientation of its points: of the first
  two entries, which is what \<open>np_swap_columns\<close> does, and of the last two, which is what
  the specification words.
\<close>

definition swap_first_two :: "'a \<times> 'a \<times> 'a \<Rightarrow> 'a \<times> 'a \<times> 'a" where
  "swap_first_two t = (case t of (a, b, c) \<Rightarrow> (b, a, c))"

definition swap_last_two :: "'a \<times> 'a \<times> 'a \<Rightarrow> 'a \<times> 'a \<times> 'a" where
  "swap_last_two t = (case t of (a, b, c) \<Rightarrow> (a, c, b))"

text \<open>The signed area of one triad's points, as \<open>cw_or_ccw\<close> computes it.\<close>

definition orientation :: "real \<times> real \<times> real \<Rightarrow> real \<times> real \<times> real \<Rightarrow> real" where
  "orientation xs ys =
     (case xs of (x0, x1, x2) \<Rightarrow> case ys of (y0, y1, y2) \<Rightarrow> det (Mat3 x0 y0 1  x1 y1 1  x2 y2 1))"

text \<open>
  An entry of the ordering step: a triad with the x and the y coordinates of its three
  points. In canonical order it is unchanged when clockwise, and has its first two
  points exchanged otherwise.
\<close>

definition canonical ::
  "triad \<times> (real \<times> real \<times> real) \<times> (real \<times> real \<times> real) \<Rightarrow>
   triad \<times> (real \<times> real \<times> real) \<times> (real \<times> real \<times> real)" where
  "canonical e =
     (if orientation (fst (snd e)) (snd (snd e)) < 0 then e
      else (swap_first_two (fst e), swap_first_two (fst (snd e)), swap_first_two (snd (snd e))))"

section \<open>Camera geometry (common/camera.py)\<close>

text \<open>
  A 3x1 array is a vector; a 3x4, a 4x3 and a 3x2 array are written out entry by entry,
  row by row.
\<close>

datatype vec3 = Vec3 real real real

datatype mat34 = Mat34 real real real real  real real real real  real real real real

datatype mat43 = Mat43 real real real  real real real  real real real  real real real

datatype mat32 = Mat32 real real  real real  real real

fun vec_neg :: "vec3 \<Rightarrow> vec3" where
  "vec_neg (Vec3 x y z) = Vec3 (- x) (- y) (- z)"

fun vec_scale :: "real \<Rightarrow> vec3 \<Rightarrow> vec3" where
  "vec_scale s (Vec3 x y z) = Vec3 (s * x) (s * y) (s * z)"

text \<open>
  \<open>LA.norm\<close> of a 3x1 array: the Frobenius norm by default and the largest singular value
  with \<open>ord=2\<close>; for a single column both are the Euclidean length.
\<close>

fun vec_norm :: "vec3 \<Rightarrow> real" where
  "vec_norm (Vec3 x y z) = sqrt (x ^ 2 + y ^ 2 + z ^ 2)"

text \<open>\<open>np.cross(a, b, axis=0)\<close> of two 3x1 arrays.\<close>

fun cross :: "vec3 \<Rightarrow> vec3 \<Rightarrow> vec3" where
  "cross (Vec3 a1 a2 a3) (Vec3 b1 b2 b3) =
     Vec3 (a2 * b3 - a3 * b2) (a3 * b1 - a1 * b3) (a1 * b2 - a2 * b1)"

text \<open>The product \<open>A @ v\<close> of a 3x3 array and a 3x1 array.\<close>

fun mat_vec :: "mat3 \<Rightarrow> vec3 \<Rightarrow> vec3" where
  "mat_vec (Mat3 a11 a12 a13 a21 a22 a23 a31 a32 a33) (Vec3 x y z) =
     Vec3 (a11 * x + a12 * y + a13 * z) (a21 * x + a22 * y + a23 * z)
          (a31 * x + a32 * y + a33 * z)"

text \<open>\<open>np.concatenate((u, v, w), axis=-1)\<close> of three 3x1 arrays: the columns of a 3x3 array.\<close>

fun concat_columns :: "vec3 \<Rightarrow> vec3 \<Rightarrow> vec3 \<Rightarrow> mat3" where
  "concat_columns (Vec3 u1 u2 u3) (Vec3 v1 v2 v3) (Vec3 w1 w2 w3) =
     Mat3 u1 v1 w1  u2 v2 w2  u3 v3 w3"

text \<open>\<open>np.concatenate((A, v), axis=1)\<close> of a 3x3 and a 3x1 array: a 3x4 array.\<close>

fun concat_33_31 :: "mat3 \<Rightarrow> vec3 \<Rightarrow> mat34" where
  "concat_33_31 (Mat3 a11 a12 a13 a21 a22 a23 a31 a32 a33) (Vec3 x y z) =
     Mat34 a11 a12 a13 x  a21 a22 a23 y  a31 a32 a33 z"

text \<open>\<open>np.concatenate((A, v), axis=-1)\<close> of a 3x2 and a 3x1 array: a 3x3 array.\<close>

fun concat_32_31 :: "mat32 \<Rightarrow> vec3 \<Rightarrow> mat3" where
  "concat_32_31 (Mat32 a11 a12 a21 a22 a31 a32) (Vec3 x y z) =
     Mat3 a11 a12 x  a21 a22 y  a31 a32 z"

text \<open>\<open>np.concatenate((A, row), axis=1)\<close> in a batch: a 1x3 row below a 3x3 array.\<close>

fun concat_33_13 :: "mat3 \<Rightarrow> real \<times> real \<times> real \<Rightarrow> mat43" where
  "concat_33_13 (Mat3 a11 a12 a13 a21 a22 a23 a31 a32 a33) (x, y, z) =
     Mat43 a11 a12 a13  a21 a22 a23  a31 a32 a33  x y z"

text \<open>The products of a 3x3 with a 3x4, of a 3x3 with a 3x2 and of a 3x4 with a 4x3 array.\<close>

fun mul_33_34 :: "mat3 \<Rightarrow> mat34 \<Rightarrow> mat34" where
  "mul_33_34 (Mat3 a11 a12 a13 a21 a22 a23 a31 a32 a33)
             (Mat34 b11 b12 b13 b14 b21 b22 b23 b24 b31 b32 b33 b34) =
     Mat34 (a11 * b11 + a12 * b21 + a13 * b31) (a11 * b12 + a12 * b22 + a13 * b32)
             (a11 * b13 + a12 * b23 + a13 * b33) (a11 * b14 + a12 * b24 + a13 * b34)
           (a21 * b11 + a22 * b21 + a23 * b31) (a21 * b12 + a22 * b22 + a23 * b32)
             (a21 * b13 + a22 * b23 + a23 * b33) (a21 * b14 + a22 * b24 + a23 * b34)
           (a31 * b11 + a32 * b21 + a33 * b31) (a31 * b12 + a32 * b22 + a33 * b32)
             (a31 * b13 + a32 * b23 + a33 * b33) (a31 * b14 + a32 * b24 + a33 * b34)"

fun mul_33_32 :: "mat3 \<Rightarrow> mat32 \<Rightarrow> mat32" where
  "mul_33_32 (Mat3 a11 a12 a13 a21 a22 a23 a31 a32 a33) (Mat32 b11 b12 b21 b22 b31 b32) =
     Mat32 (a11 * b11 + a12 * b21 + a13 * b31) (a11 * b12 + a12 * b22 + a13 * b32)
           (a21 * b11 + a22 * b21 + a23 * b31) (a21 * b12 + a22 * b22 + a23 * b32)
           (a31 * b11 + a32 * b21 + a33 * b31) (a31 * b12 + a32 * b22 + a33 * b32)"

fun mul_34_43 :: "mat34 \<Rightarrow> mat43 \<Rightarrow> mat3" where
  "mul_34_43 (Mat34 a11 a12 a13 a14 a21 a22 a23 a24 a31 a32 a33 a34)
             (Mat43 b11 b12 b13 b21 b22 b23 b31 b32 b33 b41 b42 b43) =
     Mat3 (a11 * b11 + a12 * b21 + a13 * b31 + a14 * b41)
            (a11 * b12 + a12 * b22 + a13 * b32 + a14 * b42)
            (a11 * b13 + a12 * b23 + a13 * b33 + a14 * b43)
          (a21 * b11 + a22 * b21 + a23 * b31 + a24 * b41)
            (a21 * b12 + a22 * b22 + a23 * b32 + a24 * b42)
            (a21 * b13 + a22 * b23 + a23 * b33 + a24 * b43)
          (a31 * b11 + a32 * b21 + a33 * b31 + a34 * b41)
            (a31 * b12 + a32 * b22 + a33 * b32 + a34 * b42)
            (a31 * b13 + a32 * b23 + a33 * b33 + a34 * b43)"

text \<open>
  An argument documented as "float, Iterable": one number, or an iterable read as a pair by
  \<open>isinstance(\<dots>, Iterable)\<close>.
\<close>

datatype scalar_or_pair = Scalar real | Pair real real

text \<open>
  \<open>offset_ / np.tan(np.radians(fov_) / 2)\<close>. \<open>np.radians\<close> multiplies by \<open>pi / 180\<close>. Where
  the tangent is zero the division gives an infinite or NaN value, without an exception;
  where the tangent has a pole the reals have no value for it. Both are \<open>NonFinite\<close>.
\<close>

definition focal_length :: "real \<Rightarrow> real \<Rightarrow> error + real" where
  "focal_length fov1 offset1 =
     (let half = (fov1 * pi / 180) / 2 in
      if cos half = 0 \<or> sin half = 0 then Inl NonFinite else Inr (offset1 / tan half))"

text \<open>
  \<^verbatim>\<open>
  def camera_matrix(fov=const.CAMERA_FOV, offset=0, alpha=0):
      if isinstance(offset, Iterable):
          x_0, y_0 = offset
      else:
          x_0 = offset
          y_0 = offset
      if isinstance(fov, Iterable):
          f_x, f_y = map(lambda fov_, offset_: offset_ / np.tan(np.radians(fov_) / 2), fov, (x_0, y_0))
      else:
          f_x, f_y = map(lambda offset_: offset_ / np.tan(np.radians(fov) / 2), (x_0, y_0))
      return np.array([[f_x, alpha, x_0],
                       [0, f_y, y_0],
                       [0, 0, 1]])
  \<close>
\<close>

definition camera_matrix :: "scalar_or_pair \<Rightarrow> scalar_or_pair \<Rightarrow> real \<Rightarrow> error + mat3" where
  "camera_matrix fov offset alpha =
     (case (case offset of Pair x y \<Rightarrow> (x, y) | Scalar x \<Rightarrow> (x, x)) of (x_0, y_0) \<Rightarrow>
      case (case fov of Pair fov_x fov_y \<Rightarrow> (fov_x, fov_y) | Scalar f \<Rightarrow> (f, f)) of
        (fov_x, fov_y) \<Rightarrow>
      err_bind (focal_length fov_x x_0) (\<lambda>f_x.
      err_bind (focal_length fov_y y_0) (\<lambda>f_y.
        Inr (Mat3 f_x alpha x_0  0 f_y y_0  0 0 1))))"

text \<open>
  \<^verbatim>\<open>
  def projection_matrix(K, T, r):
      r_C = T @ r
      return K @ np.concatenate((T, -r_C), axis=1)
  \<close>
\<close>

definition projection_matrix :: "mat3 \<Rightarrow> mat3 \<Rightarrow> vec3 \<Rightarrow> mat34" where
  "projection_matrix K T r = (let r_C = mat_vec T r in mul_33_34 K (concat_33_31 T (vec_neg r_C)))"

text \<open>
  \<open>crater_camera_homography\<close> for one crater position \<open>p\<close>:
  \<^verbatim>\<open>
  S = np.concatenate((np.identity(2), np.zeros((1, 2))), axis=0)
  k = np.array([0, 0, 1])[:, None]
  e_i, n_i, u_i = ENU_system(p)
  T_EM = np.concatenate((e_i, n_i, u_i), axis=-1)
  H_Mi = np.concatenate((T_EM @ S, p), axis=-1)
  return P_MC @ np.concatenate((H_Mi, np.tile(k.T[None, ...], (len(H_Mi), 1, 1))), axis=1)
  \<close>
  \<open>ENU_system\<close> of \<open>craterdetection.common.coordinates\<close> is not among the sources. The
  spec says that it builds the local East-North-Up frame at a position, so it is the
  parameter \<open>ENU_system\<close>, a function from one position to the three axes, and the batch
  function of the source applies it to every position.
\<close>

definition crater_homography ::
  "(vec3 \<Rightarrow> vec3 \<times> vec3 \<times> vec3) \<Rightarrow> vec3 \<Rightarrow> mat34 \<Rightarrow> mat3" where
  "crater_homography ENU_system p P_MC =
     (let S = Mat32 1 0  0 1  0 0;
          k_T = (0, 0, 1)
      in case ENU_system p of (e_i, n_i, u_i) \<Rightarrow>
         let T_EM = concat_columns e_i n_i u_i;
             H_Mi = concat_32_31 (mul_33_32 T_EM S) p
         in mul_34_43 P_MC (concat_33_13 H_Mi k_T))"

definition crater_camera_homography ::
  "(vec3 \<Rightarrow> vec3 \<times> vec3 \<times> vec3) \<Rightarrow> vec3 list \<Rightarrow> mat34 \<Rightarrow> mat3 list" where
  "crater_camera_homography ENU_system p P_MC = map (\<lambda>p_i. crater_homography ENU_system p_i P_MC) p"

text \<open>
  \<^verbatim>\<open>
  def project_craters(C, p, fov, resolution, T_CM, r_M):
      if isinstance(resolution, Iterable):
          offset = map(lambda x: x / 2, resolution)
      else:
          offset = resolution / 2
      T_MC = LA.inv(T_CM)
      K = camera_matrix(fov, offset)
      P_MC = projection_matrix(K, T_MC, r_M)
      H_Ci = crater_camera_homography(p, P_MC)
      return LA.inv(H_Ci).transpose((0, 2, 1)) @ C @ LA.inv(H_Ci)
  \<close>
  The batch of conics and the batch of positions have one entry per crater; batches of
  different sizes are outside the documented input, and the model rejects them where the
  source multiplies them.
\<close>

definition project_craters ::
  "(vec3 \<Rightarrow> vec3 \<times> vec3 \<times> vec3) \<Rightarrow> mat3 list \<Rightarrow> vec3 list \<Rightarrow> scalar_or_pair \<Rightarrow>
     scalar_or_pair \<Rightarrow> mat3 \<Rightarrow> vec3 \<Rightarrow> error + mat3 list" where
  "project_craters ENU_system C p fov resolution T_CM r_M =
     (let offset = (case resolution of Pair x y \<Rightarrow> Pair (x / 2) (y / 2)
                                     | Scalar x \<Rightarrow> Scalar (x / 2))
      in
      err_bind (LA_inv T_CM) (\<lambda>T_MC.
      err_bind (camera_matrix fov offset 0) (\<lambda>K.
        let P_MC = projection_matrix K T_MC r_M;
            H_Ci = crater_camera_homography ENU_system p P_MC
        in
        err_bind (LA_inv_batch H_Ci) (\<lambda>H_inv.
          if length C \<noteq> length H_inv then Inl ShapeError
          else Inr (map2 (\<lambda>h c. mat_mul (mat_mul (mat_transpose h) c) h) H_inv C)))))"

text \<open>
  Dividing a vector by its norm, \<open>v / LA.norm(v)\<close>: a zero norm gives NaN or infinite
  entries without an exception, which is \<open>None\<close> here.
\<close>

definition normalize_vec :: "vec3 \<Rightarrow> vec3 option" where
  "normalize_vec v = (if vec_norm v = 0 then None else Some (vec_scale (1 / vec_norm v) v))"

text \<open>
  \<open>LA.matrix_rank(T) != 3\<close>: over the reals a 3x3 matrix has rank 3 exactly when its
  determinant is not zero.
\<close>

definition rank_is_3 :: "mat3 \<Rightarrow> bool" where
  "rank_is_3 M = (det M \<noteq> 0)"

record camera =
  cam_r :: vec3
  cam_T :: mat3
  cam_fov :: scalar_or_pair
  cam_resolution :: scalar_or_pair
  cam_alpha :: real

text \<open>
  \<^verbatim>\<open>
  def __init__(self, r, T=None, fov=const.CAMERA_FOV, resolution=const.CAMERA_RESOLUTION, alpha=0):
      self.r = r; self.fov = fov; self.resolution = resolution; self.alpha = alpha
      if T is None:
          k = np.array([0., 0., 1.])[:, None]
          Z_ax_cam = -(r / LA.norm(r))
          X_ax_cam = np.cross(k, r, axis=0)
          X_ax_cam /= LA.norm(X_ax_cam, ord=2)
          Y_ax_cam = np.cross(Z_ax_cam, X_ax_cam, axis=0)
          Y_ax_cam /= LA.norm(Y_ax_cam, ord=2)
          self.T = np.concatenate((X_ax_cam, Y_ax_cam, Z_ax_cam), axis=-1)
          if LA.matrix_rank(self.T) != 3:
              raise ValueError("Invalid camera attitude matrix!:\n", self.T)
      else:
          self.T = T
  \<close>
  The defaults of \<open>fov\<close> and \<open>resolution\<close> are constants of a module that is not among
  the sources; the caller passes the values. A basis with a NaN entry does not have rank
  3: \<open>matrix_rank\<close> counts the singular values above a tolerance, and no comparison with
  NaN holds (numpy may also raise \<open>LinAlgError\<close> from the decomposition itself; either
  way the constructor is left by an exception, which is \<open>ValueError\<close> here).
\<close>

definition Camera_init ::
  "vec3 \<Rightarrow> mat3 option \<Rightarrow> scalar_or_pair \<Rightarrow> scalar_or_pair \<Rightarrow> real \<Rightarrow> error + camera" where
  "Camera_init r T_arg fov resolution alpha =
     (case T_arg of
        Some T \<Rightarrow>
          Inr \<lparr> cam_r = r, cam_T = T, cam_fov = fov, cam_resolution = resolution,
                cam_alpha = alpha \<rparr>
      | None \<Rightarrow>
          let k = Vec3 0 0 1 in
          (case normalize_vec r of
             None \<Rightarrow> Inl ValueError
           | Some r_unit \<Rightarrow>
               let Z_ax_cam = vec_neg r_unit in
               (case normalize_vec (cross k r) of
                  None \<Rightarrow> Inl ValueError
                | Some X_ax_cam \<Rightarrow>
                    (case normalize_vec (cross Z_ax_cam X_ax_cam) of
                       None \<Rightarrow> Inl ValueError
                     | Some Y_ax_cam \<Rightarrow>
                         let T = concat_columns X_ax_cam Y_ax_cam Z_ax_cam in
                         if \<not> rank_is_3 T then Inl ValueError
                         else Inr \<lparr> cam_r = r, cam_T = T, cam_fov = fov,
                                    cam_resolution = resolution, cam_alpha = alpha \<rparr>))))"

text \<open>
  The specification's reading of \<open>project_craters\<close>, for one crater with conic \<open>c\<close> at
  position \<open>p\<close>: the conic \<open>inv(H)\<^sup>T C inv(H)\<close>, with the homography \<open>H\<close> built from the
  projection matrix \<open>K [T | - T r]\<close>.
\<close>

definition projected_conic ::
  "(vec3 \<Rightarrow> vec3 \<times> vec3 \<times> vec3) \<Rightarrow> mat3 \<Rightarrow> mat3 \<Rightarrow> vec3 \<Rightarrow> mat3 \<Rightarrow> vec3 \<Rightarrow> mat3" where
  "projected_conic ENU_system K T r c p =
     (let P = mul_33_34 K (concat_33_31 T (vec_neg (mat_vec T r)));
          H = crater_homography ENU_system p P
      in mat_mul (mat_mul (mat_transpose (mat_inverse H)) c) (mat_inverse H))"

text \<open>
  The value \<open>x\<^sup>T C x\<close> of the quadratic form of a conic at a point in homogeneous
  coordinates; the point lies on the conic when the value is zero.
\<close>

fun conic_value :: "mat3 \<Rightarrow> vec3 \<Rightarrow> real" where
  "conic_value C (Vec3 x y z) =
     (case mat_vec C (Vec3 x y z) of Vec3 u v w \<Rightarrow> x * u + y * v + z * w)"

text \<open>Half the resolution, per axis: the principal-point offset.\<close>

definition half_resolution :: "scalar_or_pair \<Rightarrow> scalar_or_pair" where
  "half_resolution resolution =
     (case resolution of Scalar x \<Rightarrow> Scalar (x / 2) | Pair x y \<Rightarrow> Pair (x / 2) (y / 2))"

section \<open>Properties of the triad enumerator\<close>

lemma py_range_empty: "b \<le> a \<Longrightarrow> py_range a b = []"
  by (simp add: py_range_def)

lemma length_py_range_step_gen:
  "step = 3 \<Longrightarrow> length (py_range_step s m step) = nat ((m - s + 2) div 3)"
proof (induction s m step rule: py_range_step.induct)
  case (1 start stop step)
  show ?case
  proof (cases "start < stop")
    case True
    with 1 have "length (py_range_step (start + 3) stop 3) = nat ((stop - (start + 3) + 2) div 3)"
      by simp
    moreover have "Suc (nat ((stop - (start + 3) + 2) div 3)) = nat ((stop - start + 2) div 3)"
      using True by arith
    ultimately show ?thesis
      using True 1(2) by (subst py_range_step.simps) simp
  next
    case False
    then have "nat ((stop - start + 2) div 3) = 0"
      by arith
    with False show ?thesis
      by (subst py_range_step.simps) simp
  qed
qed

lemma length_py_range_step3: "length (py_range_step s m 3) = nat ((m - s + 2) div 3)"
  by (rule length_py_range_step_gen) simp

lemma py_range_0_3: "py_range 0 3 = [0, 1, 2]"
  by (simp add: py_range_def upto.simps)

lemma residue_classes:
  "0 \<le> m \<Longrightarrow> nat ((m + 2) div 3) + (nat ((m + 1) div 3) + nat (m div 3)) = nat (m::int)"
proof -
  assume m: "0 \<le> m"
  then have nonneg: "0 \<le> (m + 2) div 3" "0 \<le> (m + 1) div 3" "0 \<le> m div 3"
    by simp_all
  have "nat ((m + 2) div 3) + (nat ((m + 1) div 3) + nat (m div 3))
          = nat ((m + 2) div 3 + ((m + 1) div 3 + m div 3))"
    using nonneg by (simp add: nat_add_distrib)
  also have "(m + 2) div 3 + ((m + 1) div 3 + m div 3) = m"
  proof -
    obtain q r where m: "m = 3 * q + r" and r: "r = 0 \<or> r = 1 \<or> r = 2"
    proof
      show "m = 3 * (m div 3) + m mod 3" by simp
      have "0 \<le> m mod 3" "m mod 3 < 3" by simp_all
      then show "m mod 3 = 0 \<or> m mod 3 = 1 \<or> m mod 3 = 2" by linarith
    qed
    from r show ?thesis
      unfolding m by (elim disjE) simp_all
  qed
  finally show ?thesis .
qed

lemma length_residue_loops:
  assumes "0 \<le> m"
  shows "length (concat (map (\<lambda>ii. map g (py_range_step ii m 3)) (py_range 0 3))) = nat m"
  using residue_classes [OF assms]
  by (simp add: py_range_0_3 length_py_range_step3 algebra_simps)

lemma int_sum_list: "int (sum_list (map f xs)) = sum_list (map (\<lambda>x. int (f x)) xs)"
  by (induction xs) simp_all

lemma sum_upto_Suc:
  "0 \<le> u \<Longrightarrow> sum_list (map f [1..1 + u]) = sum_list (map f [1..u]) + f (1 + u)" for u :: int
  by (simp add: upto_rec2 [of 1 "1 + u"])

lemma inner_sum: "0 \<le> u \<Longrightarrow> 2 * sum_list (map (\<lambda>dk. m - dk) [1..u]) = 2 * u * m - u * (u + 1)" for m :: int
proof (induction u rule: int_ge_induct)
  case base
  then show ?case by simp
next
  case (step i)
  then show ?case
    by (simp add: sum_upto_Suc algebra_simps)
qed

lemma outer_sum:
  "0 \<le> u \<Longrightarrow>
   6 * sum_list (map (\<lambda>dj. (n - dj - 2) * (n - dj + 1)) [1..u])
     = 6 * u * n * n - 6 * n * u * (u + 1) + u * (u + 1) * (2 * u + 1) - 6 * u * n
         + 3 * u * (u + 1) - 12 * u" for n :: int
proof (induction u rule: int_ge_induct)
  case base
  then show ?case by simp
next
  case (step i)
  then show ?case
    by (simp add: sum_upto_Suc algebra_simps)
qed

lemma sum_list_map_cong:
  "(\<And>x. x \<in> set xs \<Longrightarrow> f x = g x) \<Longrightarrow> sum_list (map f xs) = sum_list (map g xs)"
  by (induction xs) simp_all

lemma length_eps_sum:
  "length (enhanced_pattern_shifting n)
   = sum_list (map (\<lambda>dj. sum_list (map (\<lambda>dk. nat (n - dj - dk)) [1..n - dj - 2])) [1..n - 3])"
proof -
  have "length (enhanced_pattern_shifting n)
        = sum_list (map (\<lambda>dj. sum_list (map (\<lambda>dk. length (concat (map (\<lambda>ii.
                   map (\<lambda>i. (i, i + dj, i + dj + dk)) (py_range_step ii (n - dj - dk) 3))
                   (py_range 0 3)))) [1..n - dj - 2])) [1..n - 3])"
    unfolding enhanced_pattern_shifting_def py_range_def [of 1]
    by (simp add: length_concat comp_def)
  also have "\<dots> = sum_list (map (\<lambda>dj. sum_list (map (\<lambda>dk. nat (n - dj - dk)) [1..n - dj - 2]))
                      [1..n - 3])"
    by (intro sum_list_map_cong) (simp add: length_residue_loops)
  finally show ?thesis .
qed

lemma int_length_eps_sum:
  "int (length (enhanced_pattern_shifting n))
   = sum_list (map (\<lambda>dj. sum_list (map (\<lambda>dk. n - dj - dk) [1..n - dj - 2])) [1..n - 3])"
  unfolding length_eps_sum int_sum_list
  by (intro sum_list_map_cong) simp

text \<open>
  The number of triples the enumerator yields for \<open>n \<ge> 3\<close>: \<open>(n - 2) (n - 3) (n + 2) / 6\<close>,
  which is \<open>n (n - 1) (n - 2) / 6 - (n - 2)\<close>, that is \<open>n - 2\<close> fewer than \<open>C(n,3)\<close>.
\<close>

lemma length_eps:
  assumes "3 \<le> n"
  shows "6 * int (length (enhanced_pattern_shifting n)) = (n - 2) * (n - 3) * (n + 2)"
proof -
  have "2 * int (length (enhanced_pattern_shifting n))
        = sum_list (map (\<lambda>dj. 2 * sum_list (map (\<lambda>dk. n - dj - dk) [1..n - dj - 2])) [1..n - 3])"
    by (simp add: int_length_eps_sum sum_list_const_mult)
  also have "\<dots> = sum_list (map (\<lambda>dj. (n - dj - 2) * (n - dj + 1)) [1..n - 3])"
  proof (rule sum_list_map_cong)
    fix dj assume "dj \<in> set [1..n - 3]"
    then have "0 \<le> n - dj - 2" by simp
    from inner_sum [OF this, of "n - dj"]
    show "2 * sum_list (map (\<lambda>dk. n - dj - dk) [1..n - dj - 2]) = (n - dj - 2) * (n - dj + 1)"
      by (simp add: algebra_simps)
  qed
  finally have "12 * int (length (enhanced_pattern_shifting n))
             = 6 * sum_list (map (\<lambda>dj. (n - dj - 2) * (n - dj + 1)) [1..n - 3])"
    by simp
  also have "\<dots> = 2 * ((n - 2) * (n - 3) * (n + 2))"
  proof -
    from assms have "0 \<le> n - 3" by simp
    then show ?thesis
      by (subst outer_sum) (simp_all add: algebra_simps)
  qed
  finally show ?thesis by simp
qed

lemma set_py_range_step_gen:
  "step = 3 \<Longrightarrow> set (py_range_step s m step) = {i. s \<le> i \<and> i < m \<and> (i - s) mod 3 = 0}"
proof (induction s m step rule: py_range_step.induct)
  case (1 start stop step)
  show ?case
  proof (cases "start < stop")
    case True
    with 1 have IH: "set (py_range_step (start + 3) stop 3)
                      = {i. start + 3 \<le> i \<and> i < stop \<and> (i - (start + 3)) mod 3 = 0}"
      by simp
    have "{i. start \<le> i \<and> i < stop \<and> (i - start) mod 3 = 0}
          = insert start {i. start + 3 \<le> i \<and> i < stop \<and> (i - (start + 3)) mod 3 = 0}"
      using True by (auto; presburger)
    with IH True 1(2) show ?thesis
      by (subst py_range_step.simps) simp
  next
    case False
    then show ?thesis
      by (subst py_range_step.simps) auto
  qed
qed


lemma set_py_range_step3:
  "set (py_range_step s m 3) = {i. s \<le> i \<and> i < m \<and> (i - s) mod 3 = 0}"
  by (rule set_py_range_step_gen) simp

lemma residue_cover:
  "(0 \<le> i \<and> i < m \<and> i mod 3 = 0) \<or> (1 \<le> i \<and> i < m \<and> (i - 1) mod 3 = 0)
     \<or> (2 \<le> i \<and> i < m \<and> (i - 2) mod 3 = 0) \<longleftrightarrow> 0 \<le> i \<and> i < m" for i :: int
  by presburger

lemma set_residue_loops:
  "(\<Union>ii \<in> set (py_range 0 3). set (py_range_step ii m 3)) = {i. 0 \<le> i \<and> i < m}"
proof (rule set_eqI)
  fix i
  have "i \<in> (\<Union>ii \<in> set (py_range 0 3). set (py_range_step ii m 3)) \<longleftrightarrow>
        i \<in> set (py_range_step 0 m 3) \<or> i \<in> set (py_range_step 1 m 3)
          \<or> i \<in> set (py_range_step 2 m 3)"
    unfolding py_range_0_3 by simp
  also have "\<dots> \<longleftrightarrow> (0 \<le> i \<and> i < m \<and> i mod 3 = 0) \<or> (1 \<le> i \<and> i < m \<and> (i - 1) mod 3 = 0)
     \<or> (2 \<le> i \<and> i < m \<and> (i - 2) mod 3 = 0)"
    unfolding set_py_range_step3 by simp
  also have "\<dots> \<longleftrightarrow> 0 \<le> i \<and> i < m"
    by (rule residue_cover)
  finally show "i \<in> (\<Union>ii \<in> set (py_range 0 3). set (py_range_step ii m 3)) \<longleftrightarrow>
                i \<in> {i. 0 \<le> i \<and> i < m}"
    by simp
qed

lemma set_eps:
  "set (enhanced_pattern_shifting n)
   = (\<Union>dj \<in> {1..n - 3}. \<Union>dk \<in> {1..n - dj - 2}.
        (\<lambda>i. (i, i + dj, i + dj + dk)) ` {i. 0 \<le> i \<and> i < n - dj - dk})"
proof -
  have "(\<Union>ii \<in> set (py_range 0 3).
           (\<lambda>i. (i, i + dj, i + dj + dk)) ` set (py_range_step ii (n - dj - dk) 3))
        = (\<lambda>i. (i, i + dj, i + dj + dk)) ` {i. 0 \<le> i \<and> i < n - dj - dk}" for dj dk
    unfolding image_UN [symmetric] set_residue_loops ..
  then show ?thesis
    unfolding enhanced_pattern_shifting_def py_range_def [of 1]
    by simp
qed

text \<open>
  The triples the enumerator yields: the sorted triples below \<open>n\<close> whose first and last
  index are at most \<open>n - 2\<close> apart. The \<open>n - 2\<close> triples \<open>(0, j, n - 1)\<close> are never
  yielded.
\<close>

lemma enhanced_pattern_shifting_yields:
  "(i, j, k) \<in> set (enhanced_pattern_shifting n) \<longleftrightarrow>
     0 \<le> i \<and> i < j \<and> j < k \<and> k < n \<and> k - i \<le> n - 2"
proof
  assume "(i, j, k) \<in> set (enhanced_pattern_shifting n)"
  then obtain dj dk where
    "1 \<le> dj" "dj \<le> n - 3" "1 \<le> dk" "dk \<le> n - dj - 2"
    "0 \<le> i" "i < n - dj - dk" "j = i + dj" "k = i + dj + dk"
    unfolding set_eps by auto
  then show "0 \<le> i \<and> i < j \<and> j < k \<and> k < n \<and> k - i \<le> n - 2"
    by linarith
next
  assume a: "0 \<le> i \<and> i < j \<and> j < k \<and> k < n \<and> k - i \<le> n - 2"
  let ?dj = "j - i" and ?dk = "k - j"
  from a have "?dj \<in> {1..n - 3}" "?dk \<in> {1..n - ?dj - 2}"
    "i \<in> {i. 0 \<le> i \<and> i < n - ?dj - ?dk}"
    by simp_all
  moreover have "(i, j, k) = (i, i + ?dj, i + ?dj + ?dk)"
    by simp
  ultimately show "(i, j, k) \<in> set (enhanced_pattern_shifting n)"
    unfolding set_eps by blast
qed

lemma enhanced_pattern_shifting_misses:
  assumes "3 \<le> n"
  shows "(0, 1, n - 1) \<notin> set (enhanced_pattern_shifting n)"
  using assms by (simp add: enhanced_pattern_shifting_yields)

text \<open>
  C1. The claim: for every \<open>N \<ge> 3\<close> the enumerator yields all \<open>C(N,3)\<close> sorted triples,
  each once. The code at \<open>N = 3\<close>: the outer loop is \<open>range(1, 1)\<close>, which is empty, so
  nothing is yielded although \<open>C(3,3) = 1\<close>; at \<open>N = 4\<close> it yields two of the four
  triples. The bounds of the two outer loops are one too small.
\<close>

theorem enhanced_pattern_shifting_at_3_and_4:
  "enhanced_pattern_shifting 3 = [] \<and> (3::nat) choose 3 = 1 \<and>
   enhanced_pattern_shifting 4 = [(0, 1, 2), (1, 2, 3)] \<and> (4::nat) choose 3 = 4"
  by code_simp

text \<open>
  C9. For every \<open>N < 3\<close> the enumerator yields no triple (and raises nothing: the model has
  no error branch because the source has none).
\<close>

theorem enhanced_pattern_shifting_small:
  "n < 3 \<Longrightarrow> enhanced_pattern_shifting n = []"
  by (simp add: enhanced_pattern_shifting_def py_range_empty)

theorem enhanced_pattern_shifting_small_witness:
  "(2::int) < 3 \<and> enhanced_pattern_shifting 2 = [] \<and> enhanced_pattern_shifting (- 1) = []"
  using enhanced_pattern_shifting_small [of 2] enhanced_pattern_shifting_small [of "- 1"]
  by simp

section \<open>Lemmas on errors, masks and elementwise maps\<close>

lemma err_bind_Inr [simp]: "err_bind (Inr v) f = f v"
  by (simp add: err_bind_def)

lemma err_bind_Inl [simp]: "err_bind (Inl e) f = Inl e"
  by (simp add: err_bind_def)

lemma err_bind_eq_Inr: "err_bind m f = Inr r \<longleftrightarrow> (\<exists>v. m = Inr v \<and> f v = Inr r)"
  by (cases m) simp_all

lemma map_err_map_Inr:
  "(\<And>x. x \<in> set xs \<Longrightarrow> f (g x) = Inr (h x)) \<Longrightarrow> map_err f (map g xs) = Inr (map h xs)"
  by (induction xs) auto

lemma map_err_Inr_D: "map_err f xs = Inr ys \<Longrightarrow> x \<in> set xs \<Longrightarrow> \<exists>y. f x = Inr y"
  by (induction xs arbitrary: ys) (auto split: sum.splits)

lemma mask_select_Nil [simp]: "mask_select [] ms = []"
  by (simp add: mask_select_def)

lemma mask_select_Cons [simp]:
  "mask_select (x # xs) (m # ms) = (if m then x # mask_select xs ms else mask_select xs ms)"
  by (simp add: mask_select_def)

lemma map3_Cons [simp]: "map3 f (x # xs) (y # ys) (z # zs) = f x y z # map3 f xs ys zs"
  by (simp add: map3_def)

lemma map3_Nil [simp]: "map3 f [] ys zs = []"
  by (simp add: map3_def)

lemma map3_map:
  "map3 f (map a xs) (map b xs) (map c xs) = map (\<lambda>x. f (a x) (b x) (c x)) xs"
  by (induction xs) auto

lemma map6_map:
  "map6 f (map a xs) (map b xs) (map c xs) (map d xs) (map e xs) (map g xs)
   = map (\<lambda>x. f (a x) (b x) (c x) (d x) (e x) (g x)) xs"
  by (induction xs) (auto simp: map6_def)

lemma as_column_map: "as_column (map f xs) = map (\<lambda>x. [f x]) xs"
  by (simp add: as_column_def)

lemma np_T_rows_of_map:
  "np_T (length xs) [map f xs] = map (\<lambda>x. [f x]) xs"
  "np_T (length xs) [map f xs, map g xs] = map (\<lambda>x. [f x, g x]) xs"
  "np_T (length xs) [map f xs, map g xs, map h xs] = map (\<lambda>x. [f x, g x, h x]) xs"
  by (rule nth_equalityI; simp add: np_T_def)+

lemma upt_7: "[0..<7] = [0, 1, 2, 3, 4, 5, 6]"
  by (simp add: upt_rec)

section \<open>Lemmas on matrices\<close>

lemma det_mat_scale: "det (mat_scale s A) = s ^ 3 * det A"
  by (cases A) (simp add: power3_eq_cube algebra_simps)

lemma det_mat_sub_swap: "det (mat_sub B A) = - det (mat_sub A B)"
  by (cases A; cases B) (simp add: algebra_simps)

lemma mat_sub_self: "det (mat_sub A A) = 0"
  by (cases A) simp

lemma det_normalized: "det A \<noteq> 0 \<Longrightarrow> det (normalized nd A) \<noteq> 0"
  by (simp add: normalized_def det_mat_scale)

lemma scale_det_normalized: "det A \<noteq> 0 \<Longrightarrow> scale_det A = Inr (normalized True A)"
  by (simp add: scale_det_def normalized_def)

lemma scale_det_Inr_D: "scale_det A = Inr B \<Longrightarrow> det A \<noteq> 0"
  by (auto simp: scale_det_def split: if_splits)

lemma LA_inv_Inr_D: "LA_inv A = Inr B \<Longrightarrow> det A \<noteq> 0"
  by (auto simp: LA_inv_def split: if_splits)

lemma triple_invariant_rot: "triple_invariant B C A = triple_invariant A B C"
  unfolding triple_invariant_def
  by (cases A; cases B; cases C) (simp add: algebra_simps)

section \<open>Lemmas on the permutation invariants\<close>

lemma F1_rot: "F1 y z x = F1 x y z"
  by (simp add: F1_def)

lemma F2_rot: "F2 y z x = F2 x y z"
  by (simp add: F2_def np_div_def algebra_simps)

lemma F3_rot: "F3 y z x = F3 x y z"
  by (simp add: F3_def np_div_def algebra_simps)

lemma G_tilde_den_rot: "G_tilde_den y1 z1 x1 y2 z2 x2 = G_tilde_den x1 y1 z1 x2 y2 z2"
  by (simp add: G_tilde_den_def algebra_simps)

lemma G_tilde1_rot: "G_tilde1 y1 z1 x1 y2 z2 x2 = G_tilde1 x1 y1 z1 x2 y2 z2"
  by (simp add: G_tilde1_def G_tilde_den_rot G1_def algebra_simps)

lemma G_tilde2_rot: "G_tilde2 y1 z1 x1 y2 z2 x2 = G_tilde2 x1 y1 z1 x2 y2 z2"
  by (simp add: G_tilde2_def G_tilde_den_rot G2_def algebra_simps)

lemma permutation_features_rot: "permutation_features B C A = permutation_features A B C"
  by (simp add: permutation_features_def Let_def
      F1_rot [of "pair_invariant B C" "pair_invariant C A" "pair_invariant A B"]
      F2_rot [of "pair_invariant B C" "pair_invariant C A" "pair_invariant A B"]
      F3_rot [of "pair_invariant B C" "pair_invariant C A" "pair_invariant A B"]
      F1_rot [of "pair_invariant C B" "pair_invariant A C" "pair_invariant B A"]
      G_tilde1_rot [of "pair_invariant B C" "pair_invariant C A" "pair_invariant A B"
                       "pair_invariant C B" "pair_invariant A C" "pair_invariant B A"]
      G_tilde2_rot [of "pair_invariant B C" "pair_invariant C A" "pair_invariant A B"
                       "pair_invariant C B" "pair_invariant A C" "pair_invariant B A"]
      triple_invariant_rot)

lemma length_permutation_features: "length (permutation_features A B C) = 7"
  by (simp add: permutation_features_def Let_def)

lemma length_raw_invariants: "length (raw_invariants A B C) = 7"
  by (simp add: raw_invariants_def)

section \<open>The constructor through the surviving entries\<close>

lemma select_surviving:
  assumes "length ts = length As" "length As = length Bs" "length Bs = length Cs"
  shows "mask_select ts (map Not (overlapped_craters As Bs Cs)) = map fst (surviving ts As Bs Cs)"
    and "mask_select As (map Not (overlapped_craters As Bs Cs)) = map conic_i (surviving ts As Bs Cs)"
    and "mask_select Bs (map Not (overlapped_craters As Bs Cs)) = map conic_j (surviving ts As Bs Cs)"
    and "mask_select Cs (map Not (overlapped_craters As Bs Cs)) = map conic_k (surviving ts As Bs Cs)"
  using assms
  by (induction ts As Bs Cs rule: list_induct4)
     (simp_all add: overlapped_craters_def surviving_def not_overlapped_def cond_is_finite_def)

lemma surviving_not_overlapped:
  "s \<in> set (surviving ts As Bs Cs) \<Longrightarrow> not_overlapped (conic_i s) (conic_j s) (conic_k s)"
  by (simp add: surviving_def)

lemma zip_projections:
  "zip (map fst S) (zip (map conic_i S) (zip (map conic_j S) (map conic_k S))) = (S :: entry list)"
  by (induction S) auto

lemma surviving_projections:
  assumes "\<And>s. s \<in> set S \<Longrightarrow> not_overlapped (conic_i s) (conic_j s) (conic_k s)"
  shows "surviving (map fst S) (map conic_i S) (map conic_j S) (map conic_k S) = S"
  using assms by (simp add: surviving_def zip_projections)

lemma normalize_batch:
  assumes "\<And>s. s \<in> set S \<Longrightarrow> det (g s) \<noteq> 0"
  shows "(if nd then map_err scale_det (map g S) else Inr (map g S))
           = Inr (map (\<lambda>s. normalized nd (g s)) S)"
proof (cases nd)
  case True
  then show ?thesis
    using assms by (simp add: map_err_map_Inr scale_det_normalized)
next
  case False
  then show ?thesis by (simp add: normalized_def)
qed

lemma trace_inv_prod_map:
  assumes "\<And>s. s \<in> set S \<Longrightarrow> det (g s) \<noteq> 0"
  shows "trace_inv_prod (map g S) (map h S) = Inr (map (\<lambda>s. pair_invariant (g s) (h s)) S)"
proof -
  have "LA_inv_batch (map g S) = Inr (map (\<lambda>s. mat_inverse (g s)) S)"
    unfolding LA_inv_batch_def
    using assms by (intro map_err_map_Inr) (simp add: LA_inv_def)
  then show ?thesis
    by (simp add: trace_inv_prod_def map2_map_map pair_invariant_def)
qed

lemma compute_invariants_success:
  assumes "all_invertible S"
  shows "compute_invariants (map fst S) (map conic_i S) (map conic_j S) (map conic_k S) nd
         = Inr (invariants_of nd S)"
proof -
  have i: "\<And>s. s \<in> set S \<Longrightarrow> det (conic_i s) \<noteq> 0"
    and j: "\<And>s. s \<in> set S \<Longrightarrow> det (conic_j s) \<noteq> 0"
    and k: "\<And>s. s \<in> set S \<Longrightarrow> det (conic_k s) \<noteq> 0"
    using assms by (auto simp: all_invertible_def)
  have ni: "\<And>s. s \<in> set S \<Longrightarrow> det (normalized nd (conic_i s)) \<noteq> 0"
    and nj: "\<And>s. s \<in> set S \<Longrightarrow> det (normalized nd (conic_j s)) \<noteq> 0"
    and nk: "\<And>s. s \<in> set S \<Longrightarrow> det (normalized nd (conic_k s)) \<noteq> 0"
    using i j k by (simp_all add: det_normalized)
  show ?thesis
    unfolding compute_invariants_def
    by (simp add: normalize_batch [OF i] normalize_batch [OF j] normalize_batch [OF k]
        trace_inv_prod_map [OF ni] trace_inv_prod_map [OF nj] trace_inv_prod_map [OF nk]
        map3_map invariants_of_def Let_def triple_invariant_def matrix_adjugate_def)
qed

lemma normalize_batch_Inr_D:
  assumes "(if nd then map_err scale_det As else Inr As) = Inr Bs" "nd"
  shows "\<forall>a \<in> set As. det a \<noteq> 0"
  using assms map_err_Inr_D [of scale_det As Bs] scale_det_Inr_D by fastforce

lemma trace_inv_prod_Inr_D:
  assumes "trace_inv_prod As Bs = Inr v"
  shows "\<forall>a \<in> set As. det a \<noteq> 0"
proof -
  from assms obtain Is where "map_err LA_inv As = Inr Is"
    by (auto simp: trace_inv_prod_def LA_inv_batch_def err_bind_eq_Inr)
  then show ?thesis
    using map_err_Inr_D [of LA_inv As Is] LA_inv_Inr_D by fastforce
qed

lemma compute_invariants_Inr_D:
  assumes "compute_invariants T As Bs Cs nd = Inr obj"
  shows "(\<forall>a \<in> set As. det a \<noteq> 0) \<and> (\<forall>b \<in> set Bs. det b \<noteq> 0) \<and> (\<forall>c \<in> set Cs. det c \<noteq> 0)"
proof -
  from assms obtain As' Bs' Cs' v1 v2 v4 where
    a: "(if nd then map_err scale_det As else Inr As) = Inr As'" and
    b: "(if nd then map_err scale_det Bs else Inr Bs) = Inr Bs'" and
    c: "(if nd then map_err scale_det Cs else Inr Cs) = Inr Cs'" and
    ia: "trace_inv_prod As' Bs' = Inr v1" and
    ib: "trace_inv_prod Bs' As' = Inr v2" and
    ic: "trace_inv_prod Cs' As' = Inr v4"
    unfolding compute_invariants_def err_bind_eq_Inr by blast
  show ?thesis
  proof (cases nd)
    case True
    then show ?thesis
      using normalize_batch_Inr_D [OF a] normalize_batch_Inr_D [OF b] normalize_batch_Inr_D [OF c]
      by simp
  next
    case False
    with a b c have "As' = As" "Bs' = Bs" "Cs' = Cs" by simp_all
    then show ?thesis
      using trace_inv_prod_Inr_D [OF ia] trace_inv_prod_Inr_D [OF ib] trace_inv_prod_Inr_D [OF ic]
      by simp
  qed
qed

lemma init_unfold:
  assumes "length ts = length As" "length As = length Bs" "length Bs = length Cs"
  shows "CoplanarInvariants_init ts As Bs Cs nd =
           compute_invariants (map fst (surviving ts As Bs Cs)) (map conic_i (surviving ts As Bs Cs))
             (map conic_j (surviving ts As Bs Cs)) (map conic_k (surviving ts As Bs Cs)) nd"
  using assms by (simp add: CoplanarInvariants_init_def Let_def select_surviving)

lemma init_shape_error:
  "\<not> (length ts = length As \<and> length As = length Bs \<and> length Bs = length Cs) \<Longrightarrow>
   CoplanarInvariants_init ts As Bs Cs nd = Inl ShapeError"
  by (simp add: CoplanarInvariants_init_def)

lemma init_Inr_iff:
  "CoplanarInvariants_init ts As Bs Cs nd = Inr obj \<longleftrightarrow>
     length ts = length As \<and> length As = length Bs \<and> length Bs = length Cs \<and>
     all_invertible (surviving ts As Bs Cs) \<and> obj = invariants_of nd (surviving ts As Bs Cs)"
proof (cases "length ts = length As \<and> length As = length Bs \<and> length Bs = length Cs")
  case False
  then show ?thesis
    using init_shape_error [of ts As Bs Cs nd] by auto
next
  case True
  let ?S = "surviving ts As Bs Cs"
  have u: "CoplanarInvariants_init ts As Bs Cs nd =
             compute_invariants (map fst ?S) (map conic_i ?S) (map conic_j ?S) (map conic_k ?S) nd"
    using True by (simp add: init_unfold)
  show ?thesis
  proof (cases "all_invertible ?S")
    case inv: True
    show ?thesis
      using True inv by (auto simp: u compute_invariants_success)
  next
    case ninv: False
    have "CoplanarInvariants_init ts As Bs Cs nd \<noteq> Inr obj"
    proof
      assume "CoplanarInvariants_init ts As Bs Cs nd = Inr obj"
      then have "all_invertible ?S"
        using compute_invariants_Inr_D [of "map fst ?S" "map conic_i ?S" "map conic_j ?S"
            "map conic_k ?S" nd obj]
        by (simp add: u all_invertible_def)
      with ninv show False by simp
    qed
    with ninv show ?thesis by simp
  qed
qed

section \<open>The pattern of an object built from entries\<close>

lemma get_pattern_raw_of:
  "get_pattern (invariants_of nd S) False =
     map (\<lambda>s. map Some (raw_invariants (normalized nd (conic_i s)) (normalized nd (conic_j s))
                           (normalized nd (conic_k s)))) S"
  by (simp add: get_pattern_def invariants_of_def Let_def as_column_map comp_def map2_map_map
      raw_invariants_def)

lemma get_pattern_perm_of:
  "get_pattern (invariants_of nd S) True =
     np_T 7 (map (\<lambda>s. permutation_features (normalized nd (conic_i s)) (normalized nd (conic_j s))
                         (normalized nd (conic_k s))) S)"
proof -
  have len: "length (map (\<lambda>s. pair_invariant (normalized nd (conic_i s)) (normalized nd (conic_j s))) S) = length S"
    by simp
  show ?thesis
    unfolding get_pattern_def invariants_of_def Let_def F_def G_tilde_def
    by (simp add: map3_map map6_map np_T_rows_of_map as_column_map comp_def map2_map_map
        permutation_features_def Let_def)
qed


section \<open>The raw invariants\<close>

text \<open>
  C2. When the constructor returns an object, the object holds, for every surviving triad
  in input order, the six pair invariants \<open>tr(inv(A_x) A_y)\<close> and the triple invariant
  \<open>tr((adj(A_j + A_k) - adj(A_j - A_k)) A_i)\<close> of the triad's conics (rescaled to
  determinant 1 when \<open>normalize_det\<close> is set), and \<open>get_pattern\<close> in raw mode has one row
  per surviving triad: the seven values in the order
  \<open>I_ij, I_ji, I_ik, I_ki, I_jk, I_kj, I_ijk\<close>.
\<close>

theorem raw_invariants_are_traces:
  assumes "CoplanarInvariants_init ts As Bs Cs nd = Inr obj"
  shows "obj = invariants_of nd (surviving ts As Bs Cs) \<and>
         get_pattern obj False =
           map (\<lambda>s. map Some (raw_invariants (normalized nd (conic_i s))
                                 (normalized nd (conic_j s)) (normalized nd (conic_k s))))
             (surviving ts As Bs Cs)"
  using assms by (simp add: init_Inr_iff get_pattern_raw_of)

lemma example_init_normalized:
  "CoplanarInvariants_init [(0, 1, 2), (0, 1, 3)]
     [Mat3 1 0 0  0 2 0  0 0 (1/2), Mat3 1 0 0  0 2 0  0 0 (1/2)]
     [Mat3 2 0 0  0 (1/2) 0  0 0 1, Mat3 1 0 0  0 2 0  0 0 (1/2)]
     [Mat3 (1/2) 0 0  0 1 0  0 0 2, Mat3 (1/2) 0 0  0 1 0  0 0 2] True
   = Inr \<lparr> crater_triads = [(0, 1, 2)],
           I_ij = [17/4], I_ji = [5], I_ik = [5], I_ki = [17/4], I_jk = [17/4], I_kj = [5],
           I_ijk = [97/4] \<rparr>"
  by (simp add: CoplanarInvariants_init_def overlapped_craters_def cond_is_finite_def Let_def
      compute_invariants_def scale_det_def trace_inv_prod_def LA_inv_batch_def LA_inv_def
      mat_inverse_def matrix_adjugate_def)

theorem raw_invariants_are_traces_witness:
  "CoplanarInvariants_init [(0, 1, 2), (0, 1, 3)]
     [Mat3 1 0 0  0 2 0  0 0 (1/2), Mat3 1 0 0  0 2 0  0 0 (1/2)]
     [Mat3 2 0 0  0 (1/2) 0  0 0 1, Mat3 1 0 0  0 2 0  0 0 (1/2)]
     [Mat3 (1/2) 0 0  0 1 0  0 0 2, Mat3 (1/2) 0 0  0 1 0  0 0 2] True
   = Inr \<lparr> crater_triads = [(0, 1, 2)],
           I_ij = [17/4], I_ji = [5], I_ik = [5], I_ki = [17/4], I_jk = [17/4], I_kj = [5],
           I_ijk = [97/4] \<rparr>
   \<and> get_pattern \<lparr> crater_triads = [(0, 1, 2)],
           I_ij = [17/4], I_ji = [5], I_ik = [5], I_ki = [17/4], I_jk = [17/4], I_kj = [5],
           I_ijk = [97/4] \<rparr> False
     = [[Some (17/4), Some 5, Some 5, Some (17/4), Some (17/4), Some 5, Some (97/4)]]"
proof -
  note e = example_init_normalized
  have "get_pattern \<lparr> crater_triads = [(0, 1, 2)],
           I_ij = [17/4], I_ji = [5], I_ik = [5], I_ki = [17/4], I_jk = [17/4], I_kj = [5],
           I_ijk = [97/4] \<rparr> False
     = [[Some (17/4), Some 5, Some 5, Some (17/4), Some (17/4), Some 5, Some (97/4)]]"
    unfolding conjunct2 [OF raw_invariants_are_traces [OF e]]
    by (simp add: surviving_def not_overlapped_def normalized_def raw_invariants_def
        pair_invariant_def triple_invariant_def mat_inverse_def)
  with e show ?thesis by blast
qed


section \<open>Exclusion of overlapping craters\<close>

lemma init_prefiltered:
  assumes "length ts = length As" "length As = length Bs" "length Bs = length Cs"
  shows "CoplanarInvariants_init ts As Bs Cs nd =
           CoplanarInvariants_init (map fst (surviving ts As Bs Cs))
             (map conic_i (surviving ts As Bs Cs)) (map conic_j (surviving ts As Bs Cs))
             (map conic_k (surviving ts As Bs Cs)) nd"
proof -
  let ?S = "surviving ts As Bs Cs"
  have "surviving (map fst ?S) (map conic_i ?S) (map conic_j ?S) (map conic_k ?S) = ?S"
    by (rule surviving_projections) (rule surviving_not_overlapped)
  then show ?thesis
    by (simp add: init_unfold [OF assms] init_unfold [of "map fst ?S"])
qed

lemma init_identical_conics:
  "CoplanarInvariants_init [t] [A] [A] [C] nd =
     Inr \<lparr> crater_triads = [], I_ij = [], I_ji = [], I_ik = [], I_ki = [], I_jk = [],
           I_kj = [], I_ijk = [] \<rparr>"
  by (simp add: CoplanarInvariants_init_def overlapped_craters_def cond_is_finite_def
      mat_sub_self Let_def compute_invariants_def trace_inv_prod_def LA_inv_batch_def)

lemma length_get_pattern_raw_of: "length (get_pattern (invariants_of nd S) False) = length S"
  by (simp add: get_pattern_raw_of)

text \<open>
  C3. A triad with a singular pairwise difference of its conics is excluded before any
  invariant is computed. First: on aligned batches the constructor gives the same result,
  value or error, as on the batches with those triads left out beforehand, so an excluded
  triad contributes neither a value nor an exception. Second: when the constructor
  returns, the stored triads are those of the surviving entries, the raw pattern has one
  row per surviving entry, and no entry with a singular difference is among them. Third:
  a batch of one triad with \<open>A_i = A_j\<close> yields an object without triads and without
  values, whatever the matrices are, invertible or not.
\<close>

theorem overlapped_triads_excluded:
  "(length ts = length As \<and> length As = length Bs \<and> length Bs = length Cs \<longrightarrow>
      CoplanarInvariants_init ts As Bs Cs nd =
        CoplanarInvariants_init (map fst (surviving ts As Bs Cs))
          (map conic_i (surviving ts As Bs Cs)) (map conic_j (surviving ts As Bs Cs))
          (map conic_k (surviving ts As Bs Cs)) nd)
   \<and> (CoplanarInvariants_init ts As Bs Cs nd = Inr obj \<longrightarrow>
        crater_triads obj = map fst (surviving ts As Bs Cs) \<and>
        length (get_pattern obj False) = length (surviving ts As Bs Cs) \<and>
        (\<forall>s \<in> set (zip ts (zip As (zip Bs Cs))).
           det (mat_sub (conic_i s) (conic_j s)) = 0 \<or> det (mat_sub (conic_i s) (conic_k s)) = 0
             \<or> det (mat_sub (conic_j s) (conic_k s)) = 0
           \<longrightarrow> s \<notin> set (surviving ts As Bs Cs)))
   \<and> CoplanarInvariants_init [t] [A] [A] [C] nd =
       Inr \<lparr> crater_triads = [], I_ij = [], I_ji = [], I_ik = [], I_ki = [], I_jk = [],
             I_kj = [], I_ijk = [] \<rparr>"
proof (intro conjI impI)
  assume "length ts = length As \<and> length As = length Bs \<and> length Bs = length Cs"
  then show "CoplanarInvariants_init ts As Bs Cs nd =
        CoplanarInvariants_init (map fst (surviving ts As Bs Cs))
          (map conic_i (surviving ts As Bs Cs)) (map conic_j (surviving ts As Bs Cs))
          (map conic_k (surviving ts As Bs Cs)) nd"
    by (intro init_prefiltered) simp_all
next
  assume "CoplanarInvariants_init ts As Bs Cs nd = Inr obj"
  then have obj: "obj = invariants_of nd (surviving ts As Bs Cs)"
    by (simp add: init_Inr_iff)
  show "crater_triads obj = map fst (surviving ts As Bs Cs)"
    by (simp add: obj invariants_of_def Let_def)
  show "length (get_pattern obj False) = length (surviving ts As Bs Cs)"
    by (simp add: obj length_get_pattern_raw_of)
  show "\<forall>s \<in> set (zip ts (zip As (zip Bs Cs))).
           det (mat_sub (conic_i s) (conic_j s)) = 0 \<or> det (mat_sub (conic_i s) (conic_k s)) = 0
             \<or> det (mat_sub (conic_j s) (conic_k s)) = 0
           \<longrightarrow> s \<notin> set (surviving ts As Bs Cs)"
    by (auto simp: surviving_def not_overlapped_def)
next
  show "CoplanarInvariants_init [t] [A] [A] [C] nd =
       Inr \<lparr> crater_triads = [], I_ij = [], I_ji = [], I_ik = [], I_ki = [], I_jk = [],
             I_kj = [], I_ijk = [] \<rparr>"
    by (rule init_identical_conics)
qed

lemma example_surviving:
  "surviving [(0, 1, 2), (0, 1, 3)]
     [Mat3 1 0 0  0 2 0  0 0 (1/2), Mat3 1 0 0  0 2 0  0 0 (1/2)]
     [Mat3 2 0 0  0 (1/2) 0  0 0 1, Mat3 1 0 0  0 2 0  0 0 (1/2)]
     [Mat3 (1/2) 0 0  0 1 0  0 0 2, Mat3 (1/2) 0 0  0 1 0  0 0 2]
   = [((0, 1, 2), Mat3 1 0 0  0 2 0  0 0 (1/2), Mat3 2 0 0  0 (1/2) 0  0 0 1,
       Mat3 (1/2) 0 0  0 1 0  0 0 2)]"
  by (simp add: surviving_def not_overlapped_def)

theorem overlapped_triads_excluded_witness:
  "CoplanarInvariants_init [(0, 1, 2), (0, 1, 3)]
     [Mat3 1 0 0  0 2 0  0 0 (1/2), Mat3 1 0 0  0 2 0  0 0 (1/2)]
     [Mat3 2 0 0  0 (1/2) 0  0 0 1, Mat3 1 0 0  0 2 0  0 0 (1/2)]
     [Mat3 (1/2) 0 0  0 1 0  0 0 2, Mat3 (1/2) 0 0  0 1 0  0 0 2] True
   = CoplanarInvariants_init [(0, 1, 2)]
       [Mat3 1 0 0  0 2 0  0 0 (1/2)] [Mat3 2 0 0  0 (1/2) 0  0 0 1]
       [Mat3 (1/2) 0 0  0 1 0  0 0 2] True
   \<and> CoplanarInvariants_init [(0, 1, 2), (0, 1, 3)]
     [Mat3 1 0 0  0 2 0  0 0 (1/2), Mat3 1 0 0  0 2 0  0 0 (1/2)]
     [Mat3 2 0 0  0 (1/2) 0  0 0 1, Mat3 1 0 0  0 2 0  0 0 (1/2)]
     [Mat3 (1/2) 0 0  0 1 0  0 0 2, Mat3 (1/2) 0 0  0 1 0  0 0 2] True
   = Inr \<lparr> crater_triads = [(0, 1, 2)],
           I_ij = [17/4], I_ji = [5], I_ik = [5], I_ki = [17/4], I_jk = [17/4], I_kj = [5],
           I_ijk = [97/4] \<rparr>
   \<and> length (get_pattern \<lparr> crater_triads = [(0, 1, 2)],
           I_ij = [17/4], I_ji = [5], I_ik = [5], I_ki = [17/4], I_jk = [17/4], I_kj = [5],
           I_ijk = [97/4] \<rparr> False) = 1
   \<and> ((0, 1, 3), Mat3 1 0 0  0 2 0  0 0 (1/2), Mat3 1 0 0  0 2 0  0 0 (1/2),
         Mat3 (1/2) 0 0  0 1 0  0 0 2)
       \<notin> set (surviving [(0, 1, 2), (0, 1, 3)]
     [Mat3 1 0 0  0 2 0  0 0 (1/2), Mat3 1 0 0  0 2 0  0 0 (1/2)]
     [Mat3 2 0 0  0 (1/2) 0  0 0 1, Mat3 1 0 0  0 2 0  0 0 (1/2)]
     [Mat3 (1/2) 0 0  0 1 0  0 0 2, Mat3 (1/2) 0 0  0 1 0  0 0 2])"
  using overlapped_triads_excluded [of "[(0, 1, 2), (0, 1, 3)]"
     "[Mat3 1 0 0  0 2 0  0 0 (1/2), Mat3 1 0 0  0 2 0  0 0 (1/2)]"
     "[Mat3 2 0 0  0 (1/2) 0  0 0 1, Mat3 1 0 0  0 2 0  0 0 (1/2)]"
     "[Mat3 (1/2) 0 0  0 1 0  0 0 2, Mat3 (1/2) 0 0  0 1 0  0 0 2]" True
     "\<lparr> crater_triads = [(0, 1, 2)],
           I_ij = [17/4], I_ji = [5], I_ik = [5], I_ki = [17/4], I_jk = [17/4], I_kj = [5],
           I_ijk = [97/4] \<rparr>"]
    example_init_normalized
  by (simp add: example_surviving)

section \<open>Cyclic rotation of a triad\<close>

lemma not_overlapped_rot: "not_overlapped b c a = not_overlapped a b c"
  by (auto simp: not_overlapped_def det_mat_sub_swap [of a b] det_mat_sub_swap [of a c])

lemma surviving_rot:
  assumes "length ts = length As" "length As = length Bs" "length Bs = length Cs"
  shows "surviving ts Bs Cs As = map rotate_entry (surviving ts As Bs Cs)"
  using assms
  by (induction ts As Bs Cs rule: list_induct4)
     (simp_all add: surviving_def rotate_entry_def not_overlapped_rot)

lemma all_invertible_rot: "all_invertible (map rotate_entry S) = all_invertible S"
  by (auto simp: all_invertible_def rotate_entry_def)

lemma get_pattern_perm_rot:
  "get_pattern (invariants_of nd (map rotate_entry S)) True = get_pattern (invariants_of nd S) True"
  by (simp add: get_pattern_perm_of comp_def rotate_entry_def permutation_features_rot)

lemma init_rot:
  assumes "CoplanarInvariants_init ts As Bs Cs nd = Inr obj"
  shows "CoplanarInvariants_init ts Bs Cs As nd =
           Inr (invariants_of nd (map rotate_entry (surviving ts As Bs Cs)))"
proof -
  from assms have len: "length ts = length As" "length As = length Bs" "length Bs = length Cs"
    and inv: "all_invertible (surviving ts As Bs Cs)"
    by (simp_all add: init_Inr_iff)
  have len': "length ts = length Bs" "length Bs = length Cs" "length Cs = length As"
    using len by simp_all
  show ?thesis
    using len' inv by (simp add: init_Inr_iff surviving_rot [OF len] all_invertible_rot)
qed

lemma example_raw_differs:
  "CoplanarInvariants_init [(0, 1, 2)]
     [Mat3 1 0 0  0 1 0  0 0 1] [Mat3 2 0 0  0 2 0  0 0 2] [Mat3 3 0 0  0 3 0  0 0 3] False
   = Inr \<lparr> crater_triads = [(0, 1, 2)],
           I_ij = [6], I_ji = [3/2], I_ik = [9], I_ki = [1], I_jk = [9/2], I_kj = [2],
           I_ijk = [72] \<rparr>"
  "CoplanarInvariants_init [(0, 1, 2)]
     [Mat3 2 0 0  0 2 0  0 0 2] [Mat3 3 0 0  0 3 0  0 0 3] [Mat3 1 0 0  0 1 0  0 0 1] False
   = Inr \<lparr> crater_triads = [(0, 1, 2)],
           I_ij = [9/2], I_ji = [2], I_ik = [3/2], I_ki = [6], I_jk = [1], I_kj = [9],
           I_ijk = [72] \<rparr>"
  by (simp_all add: CoplanarInvariants_init_def overlapped_craters_def cond_is_finite_def Let_def
      compute_invariants_def trace_inv_prod_def LA_inv_batch_def LA_inv_def
      mat_inverse_def matrix_adjugate_def)

lemma get_pattern_raw_eval:
  "get_pattern \<lparr> crater_triads = ts, I_ij = [a], I_ji = [b], I_ik = [c], I_ki = [d],
                  I_jk = [e], I_kj = [f], I_ijk = [g] \<rparr> False
   = [[Some a, Some b, Some c, Some d, Some e, Some f, Some g]]"
  by (simp add: get_pattern_def as_column_def)

text \<open>
  C4. When the constructor returns an object for the batches \<open>(A, B, C)\<close>, it returns one
  for the rotated batches \<open>(B, C, A)\<close> too, and the permutation-invariant patterns of the
  two objects are equal (entries that are not finite included). The raw patterns need
  not be equal: they differ for the three multiples \<open>1\<close>, \<open>2\<close>, \<open>3\<close> of the identity.
\<close>

theorem permutation_pattern_rotation_invariant:
  "(\<forall>ts As Bs Cs nd obj.
      CoplanarInvariants_init ts As Bs Cs nd = Inr obj \<longrightarrow>
      (\<exists>obj'. CoplanarInvariants_init ts Bs Cs As nd = Inr obj' \<and>
              get_pattern obj' True = get_pattern obj True))
   \<and> (\<exists>ts As Bs Cs nd obj obj'.
      CoplanarInvariants_init ts As Bs Cs nd = Inr obj \<and>
      CoplanarInvariants_init ts Bs Cs As nd = Inr obj' \<and>
      get_pattern obj' False \<noteq> get_pattern obj False)"
proof (intro conjI allI impI)
  fix ts As Bs Cs nd obj
  assume a: "CoplanarInvariants_init ts As Bs Cs nd = Inr obj"
  then have "obj = invariants_of nd (surviving ts As Bs Cs)"
    by (simp add: init_Inr_iff)
  then have "get_pattern (invariants_of nd (map rotate_entry (surviving ts As Bs Cs))) True
               = get_pattern obj True"
    by (simp add: get_pattern_perm_rot)
  with init_rot [OF a]
  show "\<exists>obj'. CoplanarInvariants_init ts Bs Cs As nd = Inr obj' \<and>
              get_pattern obj' True = get_pattern obj True"
    by blast
next
  have "get_pattern \<lparr> crater_triads = [(0, 1, 2)],
           I_ij = [9/2], I_ji = [2], I_ik = [3/2], I_ki = [6], I_jk = [1], I_kj = [9],
           I_ijk = [72] \<rparr> False
        \<noteq> get_pattern \<lparr> crater_triads = [(0, 1, 2)],
           I_ij = [6], I_ji = [3/2], I_ik = [9], I_ki = [1], I_jk = [9/2], I_kj = [2],
           I_ijk = [72::real] \<rparr> False"
    by (simp add: get_pattern_raw_eval)
  with example_raw_differs
  show "\<exists>ts As Bs Cs nd obj obj'.
      CoplanarInvariants_init ts As Bs Cs nd = Inr obj \<and>
      CoplanarInvariants_init ts Bs Cs As nd = Inr obj' \<and>
      get_pattern obj' False \<noteq> get_pattern obj False"
    by blast
qed

theorem permutation_pattern_rotation_invariant_witness:
  "CoplanarInvariants_init [(0, 1, 2)]
     [Mat3 1 0 0  0 1 0  0 0 1] [Mat3 2 0 0  0 2 0  0 0 2] [Mat3 3 0 0  0 3 0  0 0 3] False
   = Inr \<lparr> crater_triads = [(0, 1, 2)],
           I_ij = [6], I_ji = [3/2], I_ik = [9], I_ki = [1], I_jk = [9/2], I_kj = [2],
           I_ijk = [72] \<rparr>
   \<and> CoplanarInvariants_init [(0, 1, 2)]
     [Mat3 2 0 0  0 2 0  0 0 2] [Mat3 3 0 0  0 3 0  0 0 3] [Mat3 1 0 0  0 1 0  0 0 1] False
   = Inr \<lparr> crater_triads = [(0, 1, 2)],
           I_ij = [9/2], I_ji = [2], I_ik = [3/2], I_ki = [6], I_jk = [1], I_kj = [9],
           I_ijk = [72] \<rparr>
   \<and> get_pattern \<lparr> crater_triads = [(0, 1, 2)],
           I_ij = [9/2], I_ji = [2], I_ik = [3/2], I_ki = [6], I_jk = [1], I_kj = [9],
           I_ijk = [72] \<rparr> True
     = get_pattern \<lparr> crater_triads = [(0, 1, 2)],
           I_ij = [6], I_ji = [3/2], I_ik = [9], I_ki = [1], I_jk = [9/2], I_kj = [2],
           I_ijk = [72] \<rparr> True"
proof -
  from conjunct1 [OF permutation_pattern_rotation_invariant] example_raw_differs(1)
  obtain obj' where
    r: "CoplanarInvariants_init [(0, 1, 2)]
          [Mat3 2 0 0  0 2 0  0 0 2] [Mat3 3 0 0  0 3 0  0 0 3] [Mat3 1 0 0  0 1 0  0 0 1] False
        = Inr obj'" and
    p: "get_pattern obj' True
        = get_pattern \<lparr> crater_triads = [(0, 1, 2)],
           I_ij = [6], I_ji = [3/2], I_ik = [9], I_ki = [1], I_jk = [9/2], I_kj = [2],
           I_ijk = [72] \<rparr> True"
    by blast
  from r example_raw_differs(2)
  have "obj' = \<lparr> crater_triads = [(0, 1, 2)],
           I_ij = [9/2], I_ji = [2], I_ik = [3/2], I_ki = [6], I_jk = [1], I_kj = [9],
           I_ijk = [72] \<rparr>"
    by simp
  with p example_raw_differs show ?thesis by simp
qed

section \<open>The shape of the pattern\<close>

lemma length_np_T: "length (np_T n rows) = n"
  by (simp add: np_T_def)

lemma length_get_pattern_perm: "length (get_pattern obj True) = 7"
  by (simp add: get_pattern_def Let_def length_np_T)

lemma np_T_column:
  assumes "t < length xs" "\<And>x. length (f x) = n"
  shows "map (\<lambda>row. row ! t) (np_T n (map f xs)) = f (xs ! t)"
  using assms by (intro nth_equalityI) (simp_all add: np_T_def)

lemma np_T_row_length: "row \<in> set (np_T n rows) \<Longrightarrow> length row = length rows"
  by (auto simp: np_T_def)

text \<open>
  C6. The claim: with \<open>permutation_invariant\<close> the pattern has six values per triad. The
  code stacks four blocks of widths 3, 1, 2 and 1, so one triad has seven values; the one
  the claim leaves out is \<open>F1\<close> of the reverse-order triple \<open>(I_ji, I_kj, I_ik)\<close>, here
  \<open>3/2 + 2 + 9 = 25/2\<close>.
\<close>

theorem permutation_pattern_has_seven_rows:
  "CoplanarInvariants_init [(0, 1, 2)]
     [Mat3 1 0 0  0 1 0  0 0 1] [Mat3 2 0 0  0 2 0  0 0 2] [Mat3 3 0 0  0 3 0  0 0 3] False
   = Inr \<lparr> crater_triads = [(0, 1, 2)],
           I_ij = [6], I_ji = [3/2], I_ik = [9], I_ki = [1], I_jk = [9/2], I_kj = [2],
           I_ijk = [72] \<rparr>
   \<and> length (get_pattern \<lparr> crater_triads = [(0, 1, 2)],
           I_ij = [6], I_ji = [3/2], I_ik = [9], I_ki = [1], I_jk = [9/2], I_kj = [2],
           I_ijk = [72] \<rparr> True) \<noteq> 6
   \<and> get_pattern \<lparr> crater_triads = [(0, 1, 2)],
           I_ij = [6], I_ji = [3/2], I_ik = [9], I_ki = [1], I_jk = [9/2], I_kj = [2],
           I_ijk = [72] \<rparr> True
     = [[Some (23/2)], [Some (- (442/79))], [Some (315 * sqrt 3 / 79)], [Some (25/2)],
        [G_tilde1 6 (9/2) 1 (3/2) 2 9], [G_tilde2 6 (9/2) 1 (3/2) 2 9], [Some 72]]"
  by (simp add: example_raw_differs(1) get_pattern_def Let_def np_T_def upt_7 F_def G_tilde_def
      map3_def map6_def as_column_def F1_def F2_def F3_def np_div_def power2_eq_square
      power3_eq_cube)

text \<open>
  C6, amended. With \<open>permutation_invariant\<close> the pattern is an array of 7 rows with one
  column per surviving triad, the column of a triad being its seven permutation features
  \<open>F1, F2, F3\<close> of \<open>(I_ij, I_jk, I_ki)\<close>, \<open>F1\<close> of \<open>(I_ji, I_kj, I_ik)\<close>, the two
  values of \<open>G_tilde\<close>, and \<open>I_ijk\<close>; in raw mode it has one row of 7 values per
  surviving triad.
\<close>

theorem pattern_shapes:
  assumes "CoplanarInvariants_init ts As Bs Cs nd = Inr obj"
  shows "length (get_pattern obj True) = 7
     \<and> (\<forall>row \<in> set (get_pattern obj True). length row = length (surviving ts As Bs Cs))
     \<and> (\<forall>t < length (surviving ts As Bs Cs).
           map (\<lambda>row. row ! t) (get_pattern obj True)
             = permutation_features (normalized nd (conic_i (surviving ts As Bs Cs ! t)))
                 (normalized nd (conic_j (surviving ts As Bs Cs ! t)))
                 (normalized nd (conic_k (surviving ts As Bs Cs ! t))))
     \<and> length (get_pattern obj False) = length (surviving ts As Bs Cs)
     \<and> (\<forall>row \<in> set (get_pattern obj False). length row = 7)"
proof -
  let ?S = "surviving ts As Bs Cs"
  from assms have obj: "obj = invariants_of nd ?S"
    by (simp add: init_Inr_iff)
  have 1: "length (get_pattern obj True) = 7"
    by (rule length_get_pattern_perm)
  have 2: "\<forall>row \<in> set (get_pattern obj True). length row = length ?S"
    using np_T_row_length by (fastforce simp: obj get_pattern_perm_of)
  have 3: "\<forall>t < length ?S. map (\<lambda>row. row ! t) (get_pattern obj True)
             = permutation_features (normalized nd (conic_i (?S ! t)))
                 (normalized nd (conic_j (?S ! t))) (normalized nd (conic_k (?S ! t)))"
    by (simp add: obj get_pattern_perm_of np_T_column length_permutation_features)
  have 4: "length (get_pattern obj False) = length ?S"
    by (simp add: obj get_pattern_raw_of)
  have 5: "\<forall>row \<in> set (get_pattern obj False). length row = 7"
    by (auto simp: obj get_pattern_raw_of length_raw_invariants)
  from 1 2 3 4 5 show ?thesis by blast
qed

theorem pattern_shapes_witness:
  "CoplanarInvariants_init [(0, 1, 2)]
     [Mat3 1 0 0  0 1 0  0 0 1] [Mat3 2 0 0  0 2 0  0 0 2] [Mat3 3 0 0  0 3 0  0 0 3] False
   = Inr \<lparr> crater_triads = [(0, 1, 2)],
           I_ij = [6], I_ji = [3/2], I_ik = [9], I_ki = [1], I_jk = [9/2], I_kj = [2],
           I_ijk = [72] \<rparr>
   \<and> length (get_pattern \<lparr> crater_triads = [(0, 1, 2)],
           I_ij = [6], I_ji = [3/2], I_ik = [9], I_ki = [1], I_jk = [9/2], I_kj = [2],
           I_ijk = [72] \<rparr> True) = 7
   \<and> length (get_pattern \<lparr> crater_triads = [(0, 1, 2)],
           I_ij = [6], I_ji = [3/2], I_ik = [9], I_ki = [1], I_jk = [9/2], I_kj = [2],
           I_ijk = [72] \<rparr> False) = 1"
proof -
  have "length (surviving [(0, 1, 2)]
     [Mat3 1 0 0  0 1 0  0 0 1] [Mat3 2 0 0  0 2 0  0 0 2] [Mat3 3 0 0  0 3 0  0 0 3]) = 1"
    by (simp add: surviving_def not_overlapped_def)
  with pattern_shapes [OF example_raw_differs(1)] example_raw_differs(1)
  show ?thesis by simp
qed


section \<open>Lemmas on the clockwise ordering\<close>

lemma np_swap_columns_eq: "np_swap_columns arr = map swap_first_two arr"
  by (induction arr) (auto simp: np_swap_columns_def swap_first_two_def Let_def)

lemma mask_select_map: "mask_select (map f E) (map p E) = map f (filter p E)"
  by (induction E) simp_all

lemma mask_assign_map:
  "mask_assign (map f E) (map p E) (map g (map f (filter p E)))
   = map (\<lambda>e. if p e then g (f e) else f e) E"
  by (induction E) simp_all

lemma orientation_swap_first_two:
  "orientation (swap_first_two xs) (swap_first_two ys) = - orientation xs ys"
  by (cases xs; cases ys) (simp add: orientation_def swap_first_two_def algebra_simps)

lemma cw_or_ccw_map:
  "cw_or_ccw (map f E) (map g E) = map (\<lambda>e. orientation (f e) (g e)) E"
  by (induction E) (simp_all add: cw_or_ccw_def orientation_def split_def)

lemma foldr_conj_map: "foldr (\<and>) (map P ds) True \<longleftrightarrow> (\<forall>d \<in> set ds. P d)"
  by (induction ds) auto

lemma all_clockwise_map:
  "all_clockwise (map f E) (map g E) \<longleftrightarrow> (\<forall>e \<in> set E. orientation (f e) (g e) < 0)"
  by (simp add: all_clockwise_def is_clockwise_def cw_or_ccw_map foldr_conj_map)

lemma is_clockwise_map:
  "is_clockwise (map f E) (map g E) = map (\<lambda>e. orientation (f e) (g e) < 0) E"
  by (simp add: is_clockwise_def cw_or_ccw_map)

lemma is_colinear_map:
  "is_colinear (map f E) (map g E) = map (\<lambda>e. orientation (f e) (g e) = 0) E"
  by (simp add: is_colinear_def cw_or_ccw_map)

lemma zip3_projections:
  assumes "length ts = length xs" "length xs = length ys"
  shows "ts = map fst (zip ts (zip xs ys))"
    and "xs = map (\<lambda>e. fst (snd e)) (zip ts (zip xs ys))"
    and "ys = map (\<lambda>e. snd (snd e)) (zip ts (zip xs ys))"
  using assms by (induction ts xs ys rule: list_induct3) simp_all

lemma order_clockwise_map:
  "order_clockwise (map fst E) (map (\<lambda>e. fst (snd e)) E) (map (\<lambda>e. snd (snd e)) E)
   = (map (\<lambda>e. fst (canonical e)) (filter (\<lambda>e. orientation (fst (snd e)) (snd (snd e)) \<noteq> 0) E),
      map (\<lambda>e. fst (snd (canonical e))) (filter (\<lambda>e. orientation (fst (snd e)) (snd (snd e)) \<noteq> 0) E),
      map (\<lambda>e. snd (snd (canonical e))) (filter (\<lambda>e. orientation (fst (snd e)) (snd (snd e)) \<noteq> 0) E))"
proof -
  let ?o = "\<lambda>e. orientation (fst (snd e)) (snd (snd e))"
  let ?nc = "\<lambda>e. \<not> ?o e < 0"
  let ?T = "\<lambda>e. fst (canonical e)"
  let ?X = "\<lambda>e. fst (snd (canonical e))"
  let ?Y = "\<lambda>e. snd (snd (canonical e))"
  have not_cw: "map Not (is_clockwise (map (\<lambda>e. fst (snd e)) E) (map (\<lambda>e. snd (snd e)) E)) = map ?nc E"
    by (simp add: is_clockwise_map comp_def)
  have t: "mask_assign (map fst E) (map ?nc E) (np_swap_columns (mask_select (map fst E) (map ?nc E)))
            = map ?T E"
    unfolding np_swap_columns_eq mask_select_map mask_assign_map
    by (simp add: canonical_def)
  have x: "mask_assign (map (\<lambda>e. fst (snd e)) E) (map ?nc E)
             (np_swap_columns (mask_select (map (\<lambda>e. fst (snd e)) E) (map ?nc E)))
            = map ?X E"
    unfolding np_swap_columns_eq mask_select_map mask_assign_map
    by (simp add: canonical_def)
  have y: "mask_assign (map (\<lambda>e. snd (snd e)) E) (map ?nc E)
             (np_swap_columns (mask_select (map (\<lambda>e. snd (snd e)) E) (map ?nc E)))
            = map ?Y E"
    unfolding np_swap_columns_eq mask_select_map mask_assign_map
    by (simp add: canonical_def)
  have o: "orientation (?X e) (?Y e) = (if ?o e < 0 then ?o e else - ?o e)" for e
    by (simp add: canonical_def orientation_swap_first_two)
  have cw_iff: "orientation (?X e) (?Y e) < 0 \<longleftrightarrow> ?o e \<noteq> 0" for e
    by (auto simp: o)
  have line_iff: "orientation (?X e) (?Y e) = 0 \<longleftrightarrow> ?o e = 0" for e
    by (auto simp: o)
  have not_line: "map Not (is_colinear (map ?X E) (map ?Y E)) = map (\<lambda>e. ?o e \<noteq> 0) E"
    by (simp add: is_colinear_map comp_def line_iff)
  have all2: "all_clockwise (map ?X (filter (\<lambda>e. ?o e \<noteq> 0) E)) (map ?Y (filter (\<lambda>e. ?o e \<noteq> 0) E))"
    by (simp add: all_clockwise_map cw_iff)
  show ?thesis
  proof (cases "all_clockwise (map ?X E) (map ?Y E)")
    case True
    then have "filter (\<lambda>e. ?o e \<noteq> 0) E = E"
      by (simp add: all_clockwise_map cw_iff)
    with True show ?thesis
      unfolding order_clockwise_def Let_def not_cw t x y by simp
  next
    case False
    then show ?thesis
      unfolding order_clockwise_def Let_def not_cw t x y
      unfolding not_line mask_select_map
      using all2 by simp
  qed
qed


section \<open>The canonical order of a triad\<close>

lemma order_clockwise_aligned:
  assumes "length ts = length xs" "length xs = length ys"
  shows "order_clockwise ts xs ys
   = (map (\<lambda>e. fst (canonical e))
        (filter (\<lambda>e. orientation (fst (snd e)) (snd (snd e)) \<noteq> 0) (zip ts (zip xs ys))),
      map (\<lambda>e. fst (snd (canonical e)))
        (filter (\<lambda>e. orientation (fst (snd e)) (snd (snd e)) \<noteq> 0) (zip ts (zip xs ys))),
      map (\<lambda>e. snd (snd (canonical e)))
        (filter (\<lambda>e. orientation (fst (snd e)) (snd (snd e)) \<noteq> 0) (zip ts (zip xs ys))))"
  using order_clockwise_map [of "zip ts (zip xs ys)"] zip3_projections [OF assms]
  by simp

lemma canonical_clockwise:
  "orientation (fst (snd e)) (snd (snd e)) \<noteq> 0 \<Longrightarrow>
   orientation (fst (snd (canonical e))) (snd (snd (canonical e))) < 0"
  by (auto simp: canonical_def orientation_swap_first_two)

text \<open>
  C5. The claim: a triad that is not clockwise has its last two indices exchanged, so
  \<open>(i, j, k)\<close> becomes \<open>(i, k, j)\<close>. The code: \<open>np_swap_columns\<close> exchanges columns 0 and
  1. For the points \<open>(0, 0)\<close>, \<open>(1, 0)\<close>, \<open>(0, 1)\<close>, which are counter-clockwise, the
  triad \<open>(0, 1, 2)\<close> becomes \<open>(1, 0, 2)\<close>, not \<open>(0, 2, 1)\<close>.
\<close>

theorem order_clockwise_not_last_two:
  "\<not> orientation (0, 1, 0) (0, 0, 1) < 0 \<and> orientation (0, 1, 0) (0, 0, 1) \<noteq> 0
   \<and> order_clockwise [(0, 1, 2)] [(0, 1, 0)] [(0, 0, 1)] = ([(1, 0, 2)], [(1, 0, 0)], [(0, 0, 1)])
   \<and> fst (order_clockwise [(0, 1, 2)] [(0, 1, 0)] [(0, 0, 1)]) \<noteq> [swap_last_two (0, 1, 2)]"
  by (simp add: order_clockwise_aligned orientation_def canonical_def swap_first_two_def
      swap_last_two_def)

text \<open>
  C5, amended. The ordering step exchanges the first two indices of every triad that is
  not clockwise, and the first two coordinates of its points with them. On aligned arrays
  its result is: the entries that are not colinear, in input order, each in canonical
  order; all of them are clockwise. In particular a counter-clockwise triad \<open>(i, j, k)\<close>
  becomes the clockwise triad \<open>(j, i, k)\<close>.
\<close>

theorem order_clockwise_swaps_first_two:
  "(length ts = length xs \<and> length xs = length ys \<longrightarrow>
      order_clockwise ts xs ys
        = (map (\<lambda>e. fst (canonical e))
             (filter (\<lambda>e. orientation (fst (snd e)) (snd (snd e)) \<noteq> 0) (zip ts (zip xs ys))),
           map (\<lambda>e. fst (snd (canonical e)))
             (filter (\<lambda>e. orientation (fst (snd e)) (snd (snd e)) \<noteq> 0) (zip ts (zip xs ys))),
           map (\<lambda>e. snd (snd (canonical e)))
             (filter (\<lambda>e. orientation (fst (snd e)) (snd (snd e)) \<noteq> 0) (zip ts (zip xs ys))))
      \<and> all_clockwise (fst (snd (order_clockwise ts xs ys))) (snd (snd (order_clockwise ts xs ys))))
   \<and> (0 < orientation (x0, x1, x2) (y0, y1, y2) \<longrightarrow>
        order_clockwise [(i, j, k)] [(x0, x1, x2)] [(y0, y1, y2)]
          = ([(j, i, k)], [(x1, x0, x2)], [(y1, y0, y2)])
        \<and> orientation (x1, x0, x2) (y1, y0, y2) < 0)"
proof (intro conjI impI)
  assume len: "length ts = length xs \<and> length xs = length ys"
  then show eq: "order_clockwise ts xs ys
        = (map (\<lambda>e. fst (canonical e))
             (filter (\<lambda>e. orientation (fst (snd e)) (snd (snd e)) \<noteq> 0) (zip ts (zip xs ys))),
           map (\<lambda>e. fst (snd (canonical e)))
             (filter (\<lambda>e. orientation (fst (snd e)) (snd (snd e)) \<noteq> 0) (zip ts (zip xs ys))),
           map (\<lambda>e. snd (snd (canonical e)))
             (filter (\<lambda>e. orientation (fst (snd e)) (snd (snd e)) \<noteq> 0) (zip ts (zip xs ys))))"
    by (simp add: order_clockwise_aligned)
  show "all_clockwise (fst (snd (order_clockwise ts xs ys))) (snd (snd (order_clockwise ts xs ys)))"
    unfolding eq by (simp add: all_clockwise_map canonical_clockwise)
next
  assume pos: "0 < orientation (x0, x1, x2) (y0, y1, y2)"
  then show "order_clockwise [(i, j, k)] [(x0, x1, x2)] [(y0, y1, y2)]
          = ([(j, i, k)], [(x1, x0, x2)], [(y1, y0, y2)])"
    by (simp add: order_clockwise_aligned canonical_def swap_first_two_def)
  from pos orientation_swap_first_two [of "(x0, x1, x2)" "(y0, y1, y2)"]
  show "orientation (x1, x0, x2) (y1, y0, y2) < 0"
    by (simp add: swap_first_two_def)
qed

theorem order_clockwise_swaps_first_two_witness:
  "length [(0, 1, 2), (0, 2, 1), (0, 1, 3)] = length [(0, 1, 0), (0, 0, 1), (0, 1, 2 :: real)]
   \<and> length [(0, 1, 0), (0, 0, 1), (0, 1, 2 :: real)] = length [(0, 0, 1), (0, 1, 0), (0, 0, 0 :: real)]
   \<and> order_clockwise [(0, 1, 2), (0, 2, 1), (0, 1, 3)]
        [(0, 1, 0), (0, 0, 1), (0, 1, 2)] [(0, 0, 1), (0, 1, 0), (0, 0, 0)]
      = ([(1, 0, 2), (0, 2, 1)], [(1, 0, 0), (0, 0, 1)], [(0, 0, 1), (0, 1, 0)])
   \<and> all_clockwise [(1, 0, 0), (0, 0, 1)] [(0, 0, 1), (0, 1, 0)]
   \<and> 0 < orientation (0, 1, 0) (0, 0, 1)
   \<and> order_clockwise [(0, 1, 2)] [(0, 1, 0)] [(0, 0, 1)] = ([(1, 0, 2)], [(1, 0, 0)], [(0, 0, 1)])
   \<and> orientation (1, 0, 0) (0, 0, 1) < 0"
  using order_clockwise_swaps_first_two [of "[(0, 1, 2), (0, 2, 1), (0, 1, 3)]"
      "[(0, 1, 0), (0, 0, 1), (0, 1, 2)]" "[(0, 0, 1), (0, 1, 0), (0, 0, 0)]" 0 1 0 0 0 1 0 1 2]
  by (auto simp: orientation_def canonical_def swap_first_two_def)

section \<open>The alternate constructors never build an object\<close>

lemma default_triads_Inr: "\<exists>ts. default_triads A_craters = Inr ts"
proof -
  let ?n = "int (length A_craters)"
  have "int (length (enhanced_pattern_shifting ?n)) \<le> (?n * (?n - 1) * (?n - 2)) div 6"
  proof (cases "3 \<le> ?n")
    case True
    have "6 * int (length (enhanced_pattern_shifting ?n)) = (?n - 2) * (?n - 3) * (?n + 2)"
      using True by (rule length_eps)
    also have "\<dots> = ?n * (?n - 1) * (?n - 2) - 6 * (?n - 2)"
      by (simp add: algebra_simps)
    also have "\<dots> \<le> ?n * (?n - 1) * (?n - 2)"
      using True by simp
    finally show ?thesis by simp
  next
    case False
    then have "enhanced_pattern_shifting ?n = []"
      by (simp add: enhanced_pattern_shifting_def py_range_empty)
    moreover have "?n = 0 \<or> ?n = 1 \<or> ?n = 2"
      using False by arith
    then have "0 \<le> ?n * (?n - 1) * (?n - 2)"
      by auto
    ultimately show ?thesis by simp
  qed
  then have "length (enhanced_pattern_shifting ?n) \<le> nat ((?n * (?n - 1) * (?n - 2)) div 6)"
    by simp
  then show ?thesis
    by (simp add: default_triads_def Let_def)
qed

lemma load_x_pix: "load_global module_globals ''x_pix'' = Inl (NameError ''x_pix'')"
  by (simp add: load_global_def module_globals_def)

lemma from_detection_conics_NameError:
  "from_detection_conics module_globals A_craters triads_arg = Inl (NameError ''x_pix'')"
proof (cases triads_arg)
  case None
  obtain ts where "default_triads A_craters = Inr ts"
    using default_triads_Inr by blast
  with None show ?thesis
    by (simp add: from_detection_conics_def load_x_pix)
next
  case (Some ts)
  then show ?thesis
    by (simp add: from_detection_conics_def load_x_pix)
qed

lemma from_detection_conics_no_instance:
  "from_detection_conics globs A_craters triads_arg \<noteq> Inr (Some inst)"
  by (auto simp: from_detection_conics_def err_bind_eq_Inr split: prod.splits)

lemma from_detection_no_instance:
  "from_detection cr globs x_pix y_pix a_pix b_pix psi_pix conv triads_arg \<noteq> Inr (Some inst)"
  by (auto simp: from_detection_def Let_def err_bind_eq_Inr from_detection_conics_no_instance)

lemma from_detection_fails:
  "isl (from_detection cr module_globals x_pix y_pix a_pix b_pix psi_pix conv triads_arg)"
  by (cases "cr a_pix b_pix (if conv then map (\<lambda>d. d * pi / 180) psi_pix else psi_pix) x_pix y_pix")
     (simp_all add: from_detection_def Let_def from_detection_conics_NameError)

lemma drain_all_fail:
  assumes "\<And>t. isl (f t)"
  shows "fst (drain f ts) = []"
proof (cases ts)
  case Nil
  then show ?thesis by simp
next
  case (Cons a list)
  with assms [of a] show ?thesis
    by (cases "f a") simp_all
qed

lemma drain_items: "(v \<in> set (fst (drain f ts))) \<Longrightarrow> \<exists>t. f t = Inr v"
  by (induction ts arbitrary: v) (auto split: sum.splits prod.splits)

lemma match_generator_yields_nothing:
  "fst (match_generator cr module_globals x_pix y_pix a_pix b_pix psi_pix conv) = []"
proof -
  have "isl (err_bind (from_detection cr module_globals x_pix y_pix a_pix b_pix psi_pix conv (Some [t]))
               (\<lambda>inst. Inr (t, inst)))" for t
    using from_detection_fails [of cr x_pix y_pix a_pix b_pix psi_pix conv "Some [t]"]
    by (cases "from_detection cr module_globals x_pix y_pix a_pix b_pix psi_pix conv (Some [t])")
       simp_all
  then show ?thesis
    unfolding match_generator_def Let_def by (rule drain_all_fail)
qed

lemma match_generator_no_instance:
  assumes "(t, r) \<in> set (fst (match_generator cr globs x_pix y_pix a_pix b_pix psi_pix conv))"
  shows "r = None"
proof -
  from assms obtain t' where
    "err_bind (from_detection cr globs x_pix y_pix a_pix b_pix psi_pix conv (Some [t']))
       (\<lambda>inst. Inr (t', inst)) = Inr (t, r)"
    unfolding match_generator_def Let_def by (blast dest: drain_items)
  then have "from_detection cr globs x_pix y_pix a_pix b_pix psi_pix conv (Some [t']) = Inr r"
    by (auto simp: err_bind_eq_Inr)
  then show ?thesis
    using from_detection_no_instance [of cr globs x_pix y_pix a_pix b_pix psi_pix conv "Some [t']"]
    by (cases r) auto
qed

text \<open>
  C10. In the module's global scope \<open>from_detection_conics\<close> raises \<open>NameError\<close> for the
  name \<open>x_pix\<close>, with or without a triad argument. In any global scope, also one that
  binds \<open>x_pix\<close> and \<open>y_pix\<close>, it returns no object, since it ends without a \<open>return\<close>
  statement. So \<open>from_detection\<close> fails in the module's scope and returns no object in
  any scope, and \<open>match_generator\<close> yields nothing in the module's scope and no item with
  an object in any scope.
\<close>

theorem from_detection_conics_never_returns_instance:
  "from_detection_conics module_globals A_craters triads_arg = Inl (NameError ''x_pix'')
   \<and> (\<forall>globs inst. from_detection_conics globs A_craters triads_arg \<noteq> Inr (Some inst))
   \<and> isl (from_detection cr module_globals x_pix y_pix a_pix b_pix psi_pix conv triads_arg)
   \<and> (\<forall>globs inst.
         from_detection cr globs x_pix y_pix a_pix b_pix psi_pix conv triads_arg \<noteq> Inr (Some inst))
   \<and> fst (match_generator cr module_globals x_pix y_pix a_pix b_pix psi_pix conv) = []
   \<and> (\<forall>globs. \<forall>item \<in> set (fst (match_generator cr globs x_pix y_pix a_pix b_pix psi_pix conv)).
         snd item = None)"
proof (intro conjI allI ballI)
  fix globs and item :: "triad \<times> coplanar_invariants option"
  assume "item \<in> set (fst (match_generator cr globs x_pix y_pix a_pix b_pix psi_pix conv))"
  then show "snd item = None"
    using match_generator_no_instance [of "fst item" "snd item"] by simp
qed (simp_all add: from_detection_conics_NameError from_detection_conics_no_instance
      from_detection_fails from_detection_no_instance match_generator_yields_nothing)

lemma enhanced_pattern_shifting_4: "enhanced_pattern_shifting 4 = [(0, 1, 2), (1, 2, 3)]"
  by code_simp

lemma from_detection_conics_bound_names:
  "from_detection_conics
     [''x_pix'' \<mapsto> PyArray [0, 1, 0, 1], ''y_pix'' \<mapsto> PyArray [0, 0, 1, 1]]
     A_craters (Some [(i, j, k)])
   = (if (- 4 \<le> i \<and> i < 4) \<and> (- 4 \<le> j \<and> j < 4) \<and> (- 4 \<le> k \<and> k < 4) then Inr None
      else Inl IndexError)"
  by (simp add: from_detection_conics_def load_global_def subscript_triads_def triad_index_def
      triad_take_def np_take_def Let_def split_def)

theorem from_detection_conics_never_returns_instance_witness:
  "fst (match_generator (\<lambda>a b psi x y. Inr [])
          [''x_pix'' \<mapsto> PyArray [0, 1, 0, 1], ''y_pix'' \<mapsto> PyArray [0, 0, 1, 1]]
          [0, 1, 0, 1] [0, 0, 1, 1] [1, 1, 1, 1] [1, 1, 1, 1] [0, 0, 0, 0] True)
     = [((0, 1, 2), None), ((1, 2, 3), None)]
   \<and> ((0, 1, 2), None) \<in> set (fst (match_generator (\<lambda>a b psi x y. Inr [])
          [''x_pix'' \<mapsto> PyArray [0, 1, 0, 1], ''y_pix'' \<mapsto> PyArray [0, 0, 1, 1]]
          [0, 1, 0, 1] [0, 0, 1, 1] [1, 1, 1, 1] [1, 1, 1, 1] [0, 0, 0, 0] True))
   \<and> snd ((0 :: int, 1 :: int, 2 :: int), None :: coplanar_invariants option) = None
   \<and> from_detection_conics module_globals [] None = Inl (NameError ''x_pix'')
   \<and> fst (match_generator (\<lambda>a b psi x y. Inr []) module_globals
          [0, 1, 0, 1] [0, 0, 1, 1] [1, 1, 1, 1] [1, 1, 1, 1] [0, 0, 0, 0] True) = []"
proof -
  have y: "fst (match_generator (\<lambda>a b psi x y. Inr [])
          [''x_pix'' \<mapsto> PyArray [0, 1, 0, 1], ''y_pix'' \<mapsto> PyArray [0, 0, 1, 1]]
          [0, 1, 0, 1] [0, 0, 1, 1] [1, 1, 1, 1] [1, 1, 1, 1] [0, 0, 0, 0] True)
     = [((0, 1, 2), None), ((1, 2, 3), None)]"
    by (simp add: match_generator_def Let_def enhanced_pattern_shifting_4 from_detection_def
        from_detection_conics_bound_names)
  from from_detection_conics_never_returns_instance
    [of "[]" None "\<lambda>a b psi x y. Inr []" "[0, 1, 0, 1]" "[0, 0, 1, 1]" "[1, 1, 1, 1]" "[1, 1, 1, 1]"
        "[0, 0, 0, 0]" True]
  show ?thesis
    by (simp add: y)
qed


section \<open>Projection of crater conics\<close>

lemma map_err_Inr_iff:
  "map_err f (map g xs) = Inr ys \<longleftrightarrow>
     (\<forall>x \<in> set xs. \<exists>y. f (g x) = Inr y) \<and> ys = map (\<lambda>x. projr (f (g x))) xs"
proof (induction xs arbitrary: ys)
  case Nil
  then show ?case by auto
next
  case (Cons x xs)
  show ?case
  proof (cases "f (g x)")
    case (Inl e)
    then show ?thesis by auto
  next
    case (Inr y)
    then show ?thesis
      using Cons.IH by (cases "map_err f (map g xs)") auto
  qed
qed

lemma LA_inv_batch_map_iff:
  "LA_inv_batch (map g xs) = Inr ys \<longleftrightarrow>
     (\<forall>x \<in> set xs. det (g x) \<noteq> 0) \<and> ys = map (\<lambda>x. mat_inverse (g x)) xs"
proof -
  have "(\<forall>x \<in> set xs. \<exists>y. LA_inv (g x) = Inr y) \<longleftrightarrow> (\<forall>x \<in> set xs. det (g x) \<noteq> 0)"
    by (auto simp: LA_inv_def)
  moreover have "(\<forall>x \<in> set xs. det (g x) \<noteq> 0) \<Longrightarrow>
      map (\<lambda>x. projr (LA_inv (g x))) xs = map (\<lambda>x. mat_inverse (g x)) xs"
    by (rule map_cong [OF refl]) (simp add: LA_inv_def)
  ultimately show ?thesis
    unfolding LA_inv_batch_def map_err_Inr_iff by auto
qed

lemma LA_inv_Inr_iff: "LA_inv A = Inr B \<longleftrightarrow> det A \<noteq> 0 \<and> B = mat_inverse A"
  by (auto simp: LA_inv_def)

lemma map2_map_left: "map2 f (map g xs) ys = map2 (\<lambda>x y. f (g x) y) xs ys"
  by (induction xs arbitrary: ys) (auto simp: zip_Cons1 split: list.splits)

text \<open>
  The conic \<open>inv(H)\<^sup>T C inv(H)\<close> is the image of the conic \<open>C\<close> under an invertible \<open>H\<close>: the
  point \<open>H x\<close> has the value on it that \<open>x\<close> has on \<open>C\<close>.
\<close>

lemma conic_value_congruence:
  "conic_value (mat_mul (mat_mul (mat_transpose A) C) A) y = conic_value C (mat_vec A y)"
  by (cases A; cases C; cases y) (simp add: algebra_simps)

lemma mat_vec_scale: "mat_vec (mat_scale s M) v = vec_scale s (mat_vec M v)"
  by (cases M; cases v) (simp add: algebra_simps)

lemma adjugate_mat_vec: "mat_vec (adjugate H) (mat_vec H x) = vec_scale (det H) x"
  by (cases H; cases x) (simp add: algebra_simps)

lemma vec_scale_scale: "vec_scale s (vec_scale t v) = vec_scale (s * t) v"
  by (cases v) simp

lemma vec_scale_one: "vec_scale 1 v = v"
  by (cases v) simp

lemma mat_inverse_mat_vec: "det H \<noteq> 0 \<Longrightarrow> mat_vec (mat_inverse H) (mat_vec H x) = x"
  by (simp add: mat_inverse_def mat_vec_scale adjugate_mat_vec vec_scale_scale vec_scale_one)

lemma projected_conic_points:
  assumes "det H \<noteq> 0"
  shows "conic_value (mat_mul (mat_mul (mat_transpose (mat_inverse H)) C) (mat_inverse H))
           (mat_vec H x) = conic_value C x"
  by (simp add: conic_value_congruence mat_inverse_mat_vec [OF assms])

text \<open>
  C7. \<open>project_craters\<close> returns a batch exactly when the attitude \<open>T_CM\<close> is invertible,
  the intrinsic matrix \<open>K\<close> of the field of view and of half the resolution is finite,
  every crater's homography is invertible and the two batches have one length; the batch
  it returns holds, for every crater on its own, the conic \<open>inv(H)\<^sup>T C inv(H)\<close>, where \<open>H\<close>
  is the crater's homography for the projection matrix \<open>K [T | - T r]\<close> and \<open>T\<close> is the
  inverse of \<open>T_CM\<close>.
\<close>

theorem project_craters_per_crater:
  "project_craters ENU_system C p fov resolution T_CM r_M = Inr out \<longleftrightarrow>
     det T_CM \<noteq> 0 \<and>
     (\<exists>K. camera_matrix fov (half_resolution resolution) 0 = Inr K \<and>
          (\<forall>p_i \<in> set p. det (crater_homography ENU_system p_i
                                 (projection_matrix K (mat_inverse T_CM) r_M)) \<noteq> 0) \<and>
          length C = length p \<and>
          out = map2 (\<lambda>p_i c. projected_conic ENU_system K (mat_inverse T_CM) r_M c p_i) p C)"
proof -
  have off: "(case resolution of Pair x y \<Rightarrow> Pair (x / 2) (y / 2) | Scalar x \<Rightarrow> Scalar (x / 2))
             = half_resolution resolution"
    by (simp add: half_resolution_def split: scalar_or_pair.splits)
  have pc: "mat_mul (mat_mul (mat_transpose (mat_inverse (crater_homography ENU_system p_i
                 (projection_matrix K (mat_inverse T_CM) r_M)))) c)
               (mat_inverse (crater_homography ENU_system p_i
                 (projection_matrix K (mat_inverse T_CM) r_M)))
            = projected_conic ENU_system K (mat_inverse T_CM) r_M c p_i" for K p_i c
    by (simp add: projected_conic_def projection_matrix_def Let_def)
  show ?thesis
    unfolding project_craters_def Let_def off err_bind_eq_Inr LA_inv_Inr_iff
      crater_camera_homography_def
    by (auto simp: LA_inv_batch_map_iff map2_map_left pc)
qed

lemma example_camera_matrix: "camera_matrix (Scalar 90) (Scalar 1) 0 = Inr (Mat3 1 0 1  0 1 1  0 0 1)"
  by (simp add: camera_matrix_def focal_length_def Let_def cos_45 sin_45 tan_45)

lemma example_homography:
  "crater_homography (\<lambda>p. (Vec3 1 0 0, Vec3 0 1 0, Vec3 0 0 1)) (Vec3 0 0 0)
     (projection_matrix (Mat3 1 0 1  0 1 1  0 0 1) (mat_inverse (Mat3 1 0 0  0 1 0  0 0 1))
        (Vec3 0 0 (- 1)))
   = Mat3 1 0 1  0 1 1  0 0 1"
  by (simp add: crater_homography_def projection_matrix_def mat_inverse_def Let_def)

theorem project_craters_per_crater_witness:
  "project_craters (\<lambda>p. (Vec3 1 0 0, Vec3 0 1 0, Vec3 0 0 1))
     [Mat3 1 0 0  0 1 0  0 0 1] [Vec3 0 0 0] (Scalar 90) (Scalar 2)
     (Mat3 1 0 0  0 1 0  0 0 1) (Vec3 0 0 (- 1))
   = Inr [Mat3 1 0 (- 1)  0 1 (- 1)  (- 1) (- 1) 3]
   \<and> camera_matrix (Scalar 90) (half_resolution (Scalar 2)) 0 = Inr (Mat3 1 0 1  0 1 1  0 0 1)
   \<and> projected_conic (\<lambda>p. (Vec3 1 0 0, Vec3 0 1 0, Vec3 0 0 1)) (Mat3 1 0 1  0 1 1  0 0 1)
       (mat_inverse (Mat3 1 0 0  0 1 0  0 0 1)) (Vec3 0 0 (- 1)) (Mat3 1 0 0  0 1 0  0 0 1)
       (Vec3 0 0 0)
     = Mat3 1 0 (- 1)  0 1 (- 1)  (- 1) (- 1) 3"
proof -
  have K: "camera_matrix (Scalar 90) (half_resolution (Scalar 2)) 0 = Inr (Mat3 1 0 1  0 1 1  0 0 1)"
    by (simp add: half_resolution_def example_camera_matrix)
  have pc: "projected_conic (\<lambda>p. (Vec3 1 0 0, Vec3 0 1 0, Vec3 0 0 1)) (Mat3 1 0 1  0 1 1  0 0 1)
       (mat_inverse (Mat3 1 0 0  0 1 0  0 0 1)) (Vec3 0 0 (- 1)) (Mat3 1 0 0  0 1 0  0 0 1)
       (Vec3 0 0 0)
     = Mat3 1 0 (- 1)  0 1 (- 1)  (- 1) (- 1) 3"
    using example_homography
    by (simp add: projected_conic_def projection_matrix_def Let_def mat_inverse_def)
  have "project_craters (\<lambda>p. (Vec3 1 0 0, Vec3 0 1 0, Vec3 0 0 1))
     [Mat3 1 0 0  0 1 0  0 0 1] [Vec3 0 0 0] (Scalar 90) (Scalar 2)
     (Mat3 1 0 0  0 1 0  0 0 1) (Vec3 0 0 (- 1))
   = Inr [Mat3 1 0 (- 1)  0 1 (- 1)  (- 1) (- 1) 3]"
    unfolding project_craters_per_crater
    by (simp add: K example_homography pc)
  with K pc show ?thesis by simp
qed

section \<open>The attitude derived from the position\<close>

lemma vec_norm_eq_0_iff: "vec_norm v = 0 \<longleftrightarrow> v = Vec3 0 0 0"
proof (cases v)
  case (Vec3 x y z)
  have "x ^ 2 + y ^ 2 + z ^ 2 = 0 \<longleftrightarrow> x = 0 \<and> y = 0 \<and> z = 0"
    by (simp add: add_nonneg_eq_0_iff)
  with Vec3 show ?thesis by simp
qed

lemma normalize_vec_None_iff: "normalize_vec v = None \<longleftrightarrow> v = Vec3 0 0 0"
  by (simp add: normalize_vec_def vec_norm_eq_0_iff)

lemma normalize_vec_Some:
  "v \<noteq> Vec3 0 0 0 \<Longrightarrow> normalize_vec v = Some (vec_scale (1 / vec_norm v) v)"
  by (simp add: normalize_vec_def vec_norm_eq_0_iff)

lemma det_scale_middle_column:
  "det (concat_columns X (vec_scale s Y) Z) = s * det (concat_columns X Y Z)"
  by (cases X; cases Y; cases Z) (simp add: algebra_simps)

lemma vec_norm_power2: "(vec_norm (Vec3 x y z)) ^ 2 = x ^ 2 + y ^ 2 + z ^ 2"
  by simp

lemma det_cross_basis: "det (concat_columns X (cross Z X) Z) = (vec_norm (cross Z X)) ^ 2"
proof (cases X)
  case X: (Vec3 x1 x2 x3)
  show ?thesis
  proof (cases Z)
    case Z: (Vec3 z1 z2 z3)
    show ?thesis
      unfolding X Z cross.simps vec_norm_power2
      by (simp add: power2_eq_square algebra_simps)
  qed
qed

lemma cross_axis: "cross (Vec3 0 0 1) (Vec3 a b c) = Vec3 (- b) a 0"
  by simp

lemma inverse_times_square: "y \<noteq> 0 \<Longrightarrow> (1 / y) * y ^ 2 = (y::real)"
  by (simp add: power2_eq_square)

lemma normalize_vec_zero: "normalize_vec (Vec3 0 0 0) = None"
  by (simp add: normalize_vec_None_iff)

lemma Camera_init_polar_axis:
  "Camera_init (Vec3 0 0 rz) None fov resolution alpha = Inl ValueError"
  by (simp add: Camera_init_def Let_def normalize_vec_zero split: option.splits)

lemma Camera_init_off_axis:
  assumes "rx \<noteq> 0 \<or> ry \<noteq> 0"
  shows "\<exists>T. Camera_init (Vec3 rx ry rz) None fov resolution alpha
               = Inr \<lparr> cam_r = Vec3 rx ry rz, cam_T = T, cam_fov = fov,
                       cam_resolution = resolution, cam_alpha = alpha \<rparr>
             \<and> rank_is_3 T"
proof -
  let ?r = "Vec3 rx ry rz"
  let ?n = "vec_norm ?r"
  let ?Xraw = "Vec3 (- ry) rx 0"
  let ?rho = "vec_norm ?Xraw"
  let ?Z = "vec_neg (vec_scale (1 / ?n) ?r)"
  let ?X = "vec_scale (1 / ?rho) ?Xraw"
  let ?Yraw = "cross ?Z ?X"
  let ?Y = "vec_scale (1 / vec_norm ?Yraw) ?Yraw"
  let ?T = "concat_columns ?X ?Y ?Z"
  from assms have r0: "?r \<noteq> Vec3 0 0 0" and x0: "?Xraw \<noteq> Vec3 0 0 0"
    by auto
  then have n: "?n \<noteq> 0" and rho: "?rho \<noteq> 0"
    by (simp_all only: vec_norm_eq_0_iff not_False_eq_True)
  have sq: "rx * rx + ry * ry \<noteq> 0"
    using assms by (simp add: add_nonneg_eq_0_iff)
  have "(- (1 / ?n * rx)) * (1 / ?rho * rx) - (- (1 / ?n * ry)) * (1 / ?rho * (- ry))
          = - ((rx * rx + ry * ry) / (?n * ?rho))"
    by (simp add: algebra_simps add_divide_distrib)
  also have "\<dots> \<noteq> 0"
    using sq n rho by simp
  finally have third:
    "(- (1 / ?n * rx)) * (1 / ?rho * rx) - (- (1 / ?n * ry)) * (1 / ?rho * (- ry)) \<noteq> 0" .
  have y0: "?Yraw \<noteq> Vec3 0 0 0"
    using third by simp
  then have ny: "vec_norm ?Yraw \<noteq> 0"
    by (simp only: vec_norm_eq_0_iff not_False_eq_True)
  have "det ?T = (1 / vec_norm ?Yraw) * (vec_norm ?Yraw) ^ 2"
    by (simp only: det_scale_middle_column det_cross_basis)
  also have "\<dots> = vec_norm ?Yraw"
    using ny by (rule inverse_times_square)
  finally have "det ?T \<noteq> 0"
    using ny by (simp only: not_False_eq_True)
  then have rank: "rank_is_3 ?T"
    unfolding rank_is_3_def .
  have "Camera_init ?r None fov resolution alpha
          = Inr \<lparr> cam_r = ?r, cam_T = ?T, cam_fov = fov, cam_resolution = resolution,
                  cam_alpha = alpha \<rparr>"
    unfolding Camera_init_def Let_def cross_axis
    using rank
    by (simp only: normalize_vec_Some [OF r0] normalize_vec_Some [OF x0]
        normalize_vec_Some [OF y0] option.case if_False not_not simp_thms)
  with rank show ?thesis by blast
qed

text \<open>
  C8. Without an explicit attitude the constructor derives a basis from the position. On
  the polar axis (\<open>r\<^sub>x = r\<^sub>y = 0\<close>, the origin included) the east direction \<open>k \<times> r\<close> is the
  zero vector, the basis is not finite and the constructor raises. Off the axis the three
  axes are finite, the basis has rank 3 and the constructor returns the camera with this
  basis as its attitude.
\<close>

theorem camera_attitude_from_position:
  "(rx = 0 \<and> ry = 0 \<longrightarrow>
      Camera_init (Vec3 rx ry rz) None fov resolution alpha = Inl ValueError)
   \<and> (rx \<noteq> 0 \<or> ry \<noteq> 0 \<longrightarrow>
      (\<exists>T. Camera_init (Vec3 rx ry rz) None fov resolution alpha
               = Inr \<lparr> cam_r = Vec3 rx ry rz, cam_T = T, cam_fov = fov,
                       cam_resolution = resolution, cam_alpha = alpha \<rparr>
           \<and> rank_is_3 T))"
  using Camera_init_polar_axis Camera_init_off_axis by simp

lemma example_camera:
  "Camera_init (Vec3 1 0 0) None (Scalar 45) (Scalar 256) 0
   = Inr \<lparr> cam_r = Vec3 1 0 0, cam_T = Mat3 0 0 (- 1)  1 0 0  0 (- 1) 0,
           cam_fov = Scalar 45, cam_resolution = Scalar 256, cam_alpha = 0 \<rparr>"
  by (simp add: Camera_init_def Let_def normalize_vec_def rank_is_3_def)

theorem camera_attitude_from_position_witness:
  "Camera_init (Vec3 0 0 1) None (Scalar 45) (Scalar 256) 0 = Inl ValueError
   \<and> Camera_init (Vec3 1 0 0) None (Scalar 45) (Scalar 256) 0
     = Inr \<lparr> cam_r = Vec3 1 0 0, cam_T = Mat3 0 0 (- 1)  1 0 0  0 (- 1) 0,
             cam_fov = Scalar 45, cam_resolution = Scalar 256, cam_alpha = 0 \<rparr>
   \<and> rank_is_3 (Mat3 0 0 (- 1)  1 0 0  0 (- 1) 0)"
  using camera_attitude_from_position [of 0 0 1 "Scalar 45" "Scalar 256" 0]
    camera_attitude_from_position [of 1 0 0 "Scalar 45" "Scalar 256" 0]
  by (auto simp: example_camera)


end
